theory Spec2Isabelle
  imports Complex_Main "HOL-Library.Extended_Nat"
begin

section \<open>Conventions of the embedding\<close>

text \<open>
  The theory embeds the customer revenue core of \<^verbatim>\<open>gpu_optimizer_system.py\<close>
  (\<^verbatim>\<open>SecurityUtils\<close>, \<^verbatim>\<open>PerformanceCache\<close>, \<^verbatim>\<open>RevenueManager\<close>) and the gateway
  selection of \<^verbatim>\<open>global_payment_system.py\<close> (\<^verbatim>\<open>GlobalPaymentSystem\<close>).

  \<^item> Python strings are \<open>string\<close>. Clock readings of \<^verbatim>\<open>time.time()\<close> are \<open>real\<close>
    numbers. The floats of a usage report (utilisation, cost, savings) are values of a
    type parameter, with the float operations as parameters.
  \<^item> Every method that reads the clock takes the reading as an argument \<open>now\<close>; all
    readings inside one call are the same instant.
  \<^item> A method that mutates \<^verbatim>\<open>self\<close> takes the state and returns the new one; a raised
    exception is the \<open>Inl\<close> branch of a sum.
  \<^item> The SQLite tables are lists of rows in insertion order. Single-statement reads and
    writes succeed; the batch write of the usage ingestion is a parameter that may fail.
\<close>

section \<open>Regular expressions of Python's \<^verbatim>\<open>re\<close> module\<close>

text \<open>
  The patterns of the source use character classes, literals, concatenation, \<^verbatim>\<open>+\<close>,
  \<^verbatim>\<open>{n}\<close>, \<^verbatim>\<open>{n,}\<close> and the anchors \<^verbatim>\<open>^\<close> and \<^verbatim>\<open>$\<close>. A class is a list of single
  characters and ranges; matching is by derivatives, so it computes.
  Characters are the 256 values of \<open>char\<close> (code points below 256).
\<close>

datatype citem = Lit char | Range char char

definition in_class :: "citem list \<Rightarrow> char \<Rightarrow> bool" where
  "in_class items c =
     list_ex (\<lambda>it. case it of
                  Lit d \<Rightarrow> c = d
                | Range lo hi \<Rightarrow> (of_char lo :: nat) \<le> of_char c \<and> (of_char c :: nat) \<le> of_char hi)
       items"

datatype regex = Void | Eps | Chars "citem list" | AnyChar
  | Seq regex regex | Alt regex regex | Star regex

primrec nullable :: "regex \<Rightarrow> bool" where
  "nullable Void = False"
| "nullable Eps = True"
| "nullable (Chars cl) = False"
| "nullable AnyChar = False"
| "nullable (Seq r s) = (nullable r \<and> nullable s)"
| "nullable (Alt r s) = (nullable r \<or> nullable s)"
| "nullable (Star r) = True"

text \<open>Concatenation and alternative that drop the dead branches of a derivative.\<close>

fun seq :: "regex \<Rightarrow> regex \<Rightarrow> regex" where
  "seq Void s = Void"
| "seq Eps s = s"
| "seq r s = Seq r s"

fun alt :: "regex \<Rightarrow> regex \<Rightarrow> regex" where
  "alt Void s = s"
| "alt r Void = r"
| "alt r s = Alt r s"

primrec deriv :: "char \<Rightarrow> regex \<Rightarrow> regex" where
  "deriv c Void = Void"
| "deriv c Eps = Void"
| "deriv c (Chars cl) = (if in_class cl c then Eps else Void)"
| "deriv c AnyChar = Eps"
| "deriv c (Seq r s) =
     (if nullable r then alt (seq (deriv c r) s) (deriv c s) else seq (deriv c r) s)"
| "deriv c (Alt r s) = alt (deriv c r) (deriv c s)"
| "deriv c (Star r) = seq (deriv c r) (Star r)"

primrec matches :: "regex \<Rightarrow> string \<Rightarrow> bool" where
  "matches r [] = nullable r"
| "matches r (c # cs) = matches (deriv c r) cs"

text \<open>A literal string, \<^verbatim>\<open>r{n}\<close> and \<^verbatim>\<open>r{n,}\<close> (\<^verbatim>\<open>r+\<close> is \<^verbatim>\<open>r{1,}\<close>).\<close>

primrec lit :: "string \<Rightarrow> regex" where
  "lit [] = Eps"
| "lit (c # cs) = Seq (Chars [Lit c]) (lit cs)"

primrec rep :: "nat \<Rightarrow> regex \<Rightarrow> regex" where
  "rep 0 r = Eps"
| "rep (Suc n) r = Seq r (rep n r)"

definition at_least :: "nat \<Rightarrow> regex \<Rightarrow> regex" where
  "at_least n r = Seq (rep n r) (Star r)"

definition newline :: char where
  "newline = CHR 0x0A"

text \<open>
  A pattern is a body with its two anchors: \<open>Pattern caret body dollar\<close>.
  \<^verbatim>\<open>re.match\<close> looks for a match that starts at the first character, \<^verbatim>\<open>re.search\<close> for
  a match anywhere unless \<^verbatim>\<open>^\<close> pins it to the start. Without the MULTILINE flag
  \<^verbatim>\<open>$\<close> matches at the end of the string and also just before a newline that ends the
  string. Both functions are used as truth values only.
\<close>

datatype pattern = Pattern bool regex bool

definition tail_of :: "bool \<Rightarrow> regex" where
  "tail_of dollar = (if dollar then Alt Eps (Chars [Lit newline]) else Star AnyChar)"

fun re_match :: "pattern \<Rightarrow> string \<Rightarrow> bool" where
  "re_match (Pattern caret body dollar) s = matches (Seq body (tail_of dollar)) s"

fun re_search :: "pattern \<Rightarrow> string \<Rightarrow> bool" where
  "re_search (Pattern caret body dollar) s =
     matches (Seq (if caret then Eps else Star AnyChar) (Seq body (tail_of dollar))) s"

text \<open>\<^verbatim>\<open>re.sub(cls, '', s)\<close> for a pattern that is one character class.\<close>

definition re_sub_class :: "citem list \<Rightarrow> string \<Rightarrow> string" where
  "re_sub_class cls s = filter (\<lambda>c. \<not> in_class cls c) s"

text \<open>The denotation of a regular expression, against which the matcher is verified.\<close>

definition conc :: "string set \<Rightarrow> string set \<Rightarrow> string set" where
  "conc A B = {u @ v | u v. u \<in> A \<and> v \<in> B}"

inductive_set star :: "string set \<Rightarrow> string set" for A :: "string set" where
  star_empty: "[] \<in> star A"
| star_step: "u \<in> A \<Longrightarrow> v \<in> star A \<Longrightarrow> u @ v \<in> star A"

primrec lang :: "regex \<Rightarrow> string set" where
  "lang Void = {}"
| "lang Eps = {[]}"
| "lang (Chars cl) = {[c] | c. in_class cl c}"
| "lang AnyChar = {[c] | c. True}"
| "lang (Seq r s) = conc (lang r) (lang s)"
| "lang (Alt r s) = lang r \<union> lang s"
| "lang (Star r) = star (lang r)"

text \<open>The characters that a word of a regular expression can contain.\<close>

primrec occurs :: "regex \<Rightarrow> char \<Rightarrow> bool" where
  "occurs Void c = False"
| "occurs Eps c = False"
| "occurs (Chars cl) c = in_class cl c"
| "occurs AnyChar c = True"
| "occurs (Seq r s) c = (occurs r c \<or> occurs s c)"
| "occurs (Alt r s) c = (occurs r c \<or> occurs s c)"
| "occurs (Star r) c = occurs r c"

section \<open>String methods of Python\<close>

text \<open>
  \<^verbatim>\<open>str.strip()\<close> removes the leading and trailing characters for which
  \<^verbatim>\<open>str.isspace\<close> holds; below code point 256 these are 0x09-0x0D, 0x1C-0x20, 0x85, 0xA0.
\<close>

definition whitespace :: "char list" where
  "whitespace = [CHR 0x09, CHR 0x0A, CHR 0x0B, CHR 0x0C, CHR 0x0D, CHR 0x1C, CHR 0x1D,
                 CHR 0x1E, CHR 0x1F, CHR 0x20, CHR 0x85, CHR 0xA0]"

definition isspace :: "char \<Rightarrow> bool" where
  "isspace c = (c \<in> set whitespace)"

definition strip :: "string \<Rightarrow> string" where
  "strip s = rev (dropWhile isspace (rev (dropWhile isspace s)))"

definition startswith :: "string \<Rightarrow> string \<Rightarrow> bool" where
  "startswith s p = (take (length p) s = p)"

section \<open>\<^verbatim>\<open>SecurityUtils\<close>\<close>

text \<open>
  \<^verbatim>\<open>
  def sanitize_input(data):
      if not isinstance(data, str):
          return str(data)
      sanitized = re.sub(r'[<>"\';\\]', '', data)
      return sanitized.strip()[:1000]
  \<close>
  The class holds the six characters \<^verbatim>\<open>< > " ' ; \\<close>. The argument is typed as a string.
\<close>

definition injection_chars :: "citem list" where
  "injection_chars =
     [Lit CHR ''<'', Lit CHR ''>'', Lit CHR 0x22, Lit CHR 0x27, Lit CHR '';'', Lit CHR 0x5C]"

definition sanitize_input :: "string \<Rightarrow> string" where
  "sanitize_input data = take 1000 (strip (re_sub_class injection_chars data))"

text \<open>
  \<^verbatim>\<open>
  def validate_api_key(api_key):
      if not api_key or not isinstance(api_key, str):
          return False
      pattern = r'^gopt_[a-zA-Z0-9]{23}$'
      return bool(re.match(pattern, api_key))
  \<close>
\<close>

definition alnum :: "citem list" where
  "alnum = [Range CHR ''a'' CHR ''z'', Range CHR ''A'' CHR ''Z'', Range CHR ''0'' CHR ''9'']"

definition api_key_pattern :: pattern where
  "api_key_pattern = Pattern True (Seq (lit ''gopt_'') (rep 23 (Chars alnum))) True"

definition validate_api_key :: "string \<Rightarrow> bool" where
  "validate_api_key api_key =
     (if api_key = [] then False else re_match api_key_pattern api_key)"

section \<open>\<^verbatim>\<open>RevenueManager.validate_email\<close>\<close>

text \<open>
  \<^verbatim>\<open>
  def validate_email(self, email):
      if not email or len(email) > 255:
          return False
      email_pattern = r'^[a-zA-Z0-9._%+-]+@[a-zA-Z0-9.-]+\.[a-zA-Z]{2,}$'
      if not re.match(email_pattern, email):
          return False
      suspicious_patterns = [r'[<>"\';\\]', r'\.{2,}', r'^\.|\.$']
      for pattern in suspicious_patterns:
          if re.search(pattern, email):
              return False
      return True
  \<close>
  The last suspicious pattern is an alternative of two anchored patterns and is listed as
  its two branches.
\<close>

definition local_chars :: "citem list" where
  "local_chars = alnum @ [Lit CHR ''.'', Lit CHR ''_'', Lit CHR ''%'', Lit CHR ''+'', Lit CHR ''-'']"

definition domain_chars :: "citem list" where
  "domain_chars = alnum @ [Lit CHR ''.'', Lit CHR ''-'']"

definition letters :: "citem list" where
  "letters = [Range CHR ''a'' CHR ''z'', Range CHR ''A'' CHR ''Z'']"

definition dot :: regex where
  "dot = Chars [Lit CHR ''.'']"

definition email_body :: regex where
  "email_body =
     Seq (at_least 1 (Chars local_chars))
       (Seq (Chars [Lit CHR ''@''])
         (Seq (at_least 1 (Chars domain_chars))
           (Seq dot (at_least 2 (Chars letters)))))"

definition email_pattern :: pattern where
  "email_pattern = Pattern True email_body True"

definition suspicious_patterns :: "pattern list" where
  "suspicious_patterns =
     [Pattern False (Chars injection_chars) False,
      Pattern False (at_least 2 dot) False,
      Pattern True dot False,
      Pattern False dot True]"

definition validate_email :: "string \<Rightarrow> bool" where
  "validate_email email =
     (if email = [] \<or> 255 < length email then False
      else if \<not> re_match email_pattern email then False
      else if list_ex (\<lambda>pattern. re_search pattern email) suspicious_patterns then False
      else True)"

text \<open>
  The characters that an email accepted by \<^verbatim>\<open>email_pattern\<close> is made of, and the control
  characters (code points below 32, and 127).
\<close>

definition email_chars :: "citem list" where
  "email_chars = Lit CHR ''@'' # local_chars"

definition is_control :: "char \<Rightarrow> bool" where
  "is_control c = ((of_char c :: nat) < 32 \<or> (of_char c :: nat) = 127)"

section \<open>Data model of \<^verbatim>\<open>RevenueManager\<close>\<close>

text \<open>
  The dataclass \<^verbatim>\<open>Customer\<close>. A row of the table \<^verbatim>\<open>customers\<close> has the same columns
  (the autoincrement \<^verbatim>\<open>id\<close> is left out) and is a value of the same record type;
  timestamps are clock readings.
\<close>

record customer =
  email :: string
  tier :: string
  api_key :: string
  created_at :: real
  last_payment :: "real option"
  gpu_count :: int
  monthly_savings :: real
  flutterwave_customer_id :: "string option"
  nowpayments_customer_id :: "string option"

text \<open>Table \<^verbatim>\<open>revenue_events\<close>; the JSON metadata is kept as its key/value pairs.\<close>

record revenue_event =
  event_email :: string
  event_type :: string
  event_amount :: real
  event_metadata :: "(string \<times> string) list"

text \<open>
  One element of \<^verbatim>\<open>gpu_data\<close>: a dict in which a key may be missing (\<open>None\<close>), and a
  row of the table \<^verbatim>\<open>gpu_usage_logs\<close>. The type \<open>'f\<close> is the type of the floats in them;
  \<^verbatim>\<open>gpu_index\<close> is a Python integer, which has no bound.
\<close>

record 'f gpu_sample =
  gpu_index :: "int option"
  gpu_name :: "string option"
  gpu_util :: "'f option"
  mem_used :: "'f option"
  mem_total :: "'f option"
  cost_per_hour :: "'f option"

record 'f usage_log =
  log_email :: string
  log_gpu_index :: int
  log_gpu_name :: string
  log_gpu_util :: 'f
  log_mem_used :: 'f
  log_mem_total :: 'f
  log_cost_per_hour :: 'f
  log_potential_savings :: 'f

text \<open>Table \<^verbatim>\<open>payment_transactions\<close>; \<^verbatim>\<open>payment_id\<close> is UNIQUE.\<close>

record payment_transaction =
  payment_email :: string
  payment_id :: string
  payment_gateway :: string
  payment_amount :: real
  payment_currency :: string
  status :: string
  payment_metadata :: string
  updated_at :: real

text \<open>
  \<^verbatim>\<open>PerformanceCache\<close>: the dicts \<^verbatim>\<open>cache\<close> and \<^verbatim>\<open>ttl_cache\<close> and the default TTL.
  \<^verbatim>\<open>
  def get(self, key):
      if key in self.cache:
          if key in self.ttl_cache and time.time() > self.ttl_cache[key]:
              del self.cache[key]; del self.ttl_cache[key]
              return None
          return self.cache[key]
      return None
  def set(self, key, value, ttl=None):
      self.cache[key] = value
      ttl = ttl or self.default_ttl
      self.ttl_cache[key] = time.time() + ttl
  def delete(self, key):
      self.cache.pop(key, None); self.ttl_cache.pop(key, None)
  \<close>
\<close>

record performance_cache =
  cache :: "string \<rightharpoonup> customer"
  ttl_cache :: "string \<rightharpoonup> real"
  default_ttl :: real

definition cache_get ::
  "performance_cache \<Rightarrow> string \<Rightarrow> real \<Rightarrow> performance_cache \<times> customer option" where
  "cache_get pc key now =
     (case cache pc key of
        None \<Rightarrow> (pc, None)
      | Some v \<Rightarrow>
          (case ttl_cache pc key of
             None \<Rightarrow> (pc, Some v)
           | Some expiry \<Rightarrow>
               if expiry < now
               then (pc\<lparr>cache := (cache pc)(key := None),
                        ttl_cache := (ttl_cache pc)(key := None)\<rparr>, None)
               else (pc, Some v)))"

definition cache_set ::
  "performance_cache \<Rightarrow> string \<Rightarrow> customer \<Rightarrow> real option \<Rightarrow> real \<Rightarrow> performance_cache" where
  "cache_set pc key v ttl now =
     (let ttl1 = (case ttl of None \<Rightarrow> default_ttl pc
                  | Some t \<Rightarrow> if t = 0 then default_ttl pc else t)
      in pc\<lparr>cache := (cache pc)(key \<mapsto> v), ttl_cache := (ttl_cache pc)(key \<mapsto> now + ttl1)\<rparr>)"

definition cache_delete :: "performance_cache \<Rightarrow> string \<Rightarrow> performance_cache" where
  "cache_delete pc key =
     pc\<lparr>cache := (cache pc)(key := None), ttl_cache := (ttl_cache pc)(key := None)\<rparr>"

text \<open>
  \<^verbatim>\<open>functools.lru_cache(maxsize=1000)\<close> on a method called with one string argument: an
  association list from the argument to the memoised result, most recently used first.
  A hit moves the entry to the front; a miss stores the computed result (whatever it
  is, \<^verbatim>\<open>None\<close> included) and drops the least recently used entry when the size is exceeded.
\<close>

type_synonym lru = "(string \<times> customer option) list"

definition lru_maxsize :: nat where
  "lru_maxsize = 1000"

definition lru_hit :: "lru \<Rightarrow> string \<Rightarrow> customer option \<Rightarrow> lru" where
  "lru_hit entries key v = (key, v) # filter (\<lambda>kv. fst kv \<noteq> key) entries"

definition lru_store :: "lru \<Rightarrow> string \<Rightarrow> customer option \<Rightarrow> lru" where
  "lru_store entries key v = take lru_maxsize ((key, v) # entries)"

text \<open>
  The state of a \<^verbatim>\<open>RevenueManager\<close>: the four tables of \<^verbatim>\<open>revenue.db\<close> that the
  modelled methods touch, \<^verbatim>\<open>self.cache\<close>, and the memo tables of the two decorated lookups.
  The rows of \<^verbatim>\<open>gpu_usage_logs\<close> are kept for the arithmetic of the real numbers, the
  instance in which examples are evaluated.
\<close>

record revenue_manager =
  customers :: "customer list"
  revenue_events :: "revenue_event list"
  gpu_usage_logs :: "real usage_log list"
  payment_transactions :: "payment_transaction list"
  rm_cache :: performance_cache
  lru_get_customer :: lru
  lru_get_customer_by_api_key :: lru

text \<open>A freshly started manager on an empty database (\<^verbatim>\<open>PerformanceCache(default_ttl=300)\<close>).\<close>

definition empty_cache :: performance_cache where
  "empty_cache = \<lparr>cache = Map.empty, ttl_cache = Map.empty, default_ttl = 300\<rparr>"

definition fresh_manager :: revenue_manager where
  "fresh_manager =
     \<lparr>customers = [], revenue_events = [], gpu_usage_logs = [], payment_transactions = [],
      rm_cache = empty_cache, lru_get_customer = [], lru_get_customer_by_api_key = []\<rparr>"

text \<open>A manager started on an existing database: the tables are there, the caches are empty.\<close>

definition restarted :: "revenue_manager \<Rightarrow> revenue_manager" where
  "restarted s = s\<lparr>rm_cache := empty_cache, lru_get_customer := [],
                   lru_get_customer_by_api_key := []\<rparr>"

text \<open>\<^verbatim>\<open>self.pricing\<close>: price and GPU limit per tier (\<^verbatim>\<open>float('inf')\<close> is \<open>\<infinity>\<close>).\<close>

record pricing_entry =
  price :: int
  gpu_limit :: enat

definition pricing_free :: pricing_entry where
  "pricing_free = \<lparr>price = 0, gpu_limit = 2\<rparr>"

definition pricing :: "string \<Rightarrow> pricing_entry option" where
  "pricing t =
     (if t = ''free'' then Some pricing_free
      else if t = ''professional'' then Some \<lparr>price = 49, gpu_limit = \<infinity>\<rparr>
      else if t = ''enterprise'' then Some \<lparr>price = 199, gpu_limit = \<infinity>\<rparr>
      else None)"

text \<open>Exceptions that leave the modelled methods.\<close>

datatype error = ValueError string | KeyError string | AttributeError string | RecursionError

section \<open>IdentityStore: lookups of \<^verbatim>\<open>RevenueManager\<close>\<close>

text \<open>
  \<^verbatim>\<open>row_to_customer\<close> builds a \<^verbatim>\<open>Customer\<close>, whose \<^verbatim>\<open>__post_init__\<close> raises
  \<^verbatim>\<open>ValueError\<close> on an email that is empty or has no \<^verbatim>\<open>@\<close>, on a tier outside the three
  known ones and on an API key that does not start with \<^verbatim>\<open>gopt_\<close>; the method catches it
  and returns \<^verbatim>\<open>None\<close>.
\<close>

definition row_to_customer :: "customer \<Rightarrow> customer option" where
  "row_to_customer row =
     (if email row = [] then None
      else if CHR ''@'' \<notin> set (email row) then None
      else if tier row \<notin> set [''free'', ''professional'', ''enterprise''] then None
      else if api_key row = [] then None
      else if \<not> startswith (api_key row) ''gopt_'' then None
      else Some row)"

text \<open>
  \<^verbatim>\<open>
  @lru_cache(maxsize=1000)
  def get_customer(self, email):
      cache_key = f"customer_email_{email}"
      cached_customer = self.cache.get(cache_key)
      if cached_customer:
          return cached_customer
      ... cursor.execute('SELECT * FROM customers WHERE email = ?', (email,))
          row = cursor.fetchone()
          customer = self.row_to_customer(row) if row else None
          if customer:
              self.cache.set(cache_key, customer, ttl=600)
          return customer
  \<close>
  \<open>get_customer_body\<close> is the decorated function, \<open>get_customer\<close> the function with its
  decorator. \<^verbatim>\<open>get_customer_by_email\<close> calls \<^verbatim>\<open>get_customer\<close>.
\<close>

definition get_customer_body ::
  "revenue_manager \<Rightarrow> string \<Rightarrow> real \<Rightarrow> revenue_manager \<times> customer option" where
  "get_customer_body s em now =
     (let cache_key = ''customer_email_'' @ em;
          (pc, cached_customer) = cache_get (rm_cache s) cache_key now;
          s1 = s\<lparr>rm_cache := pc\<rparr>
      in case cached_customer of
           Some c \<Rightarrow> (s1, Some c)
         | None \<Rightarrow>
             (case find (\<lambda>row. email row = em) (customers s1) of
                None \<Rightarrow> (s1, None)
              | Some row \<Rightarrow>
                  (case row_to_customer row of
                     None \<Rightarrow> (s1, None)
                   | Some c \<Rightarrow>
                       (s1\<lparr>rm_cache := cache_set (rm_cache s1) cache_key c (Some 600) now\<rparr>,
                        Some c))))"

definition get_customer ::
  "revenue_manager \<Rightarrow> string \<Rightarrow> real \<Rightarrow> revenue_manager \<times> customer option" where
  "get_customer s em now =
     (case map_of (lru_get_customer s) em of
        Some memo \<Rightarrow> (s\<lparr>lru_get_customer := lru_hit (lru_get_customer s) em memo\<rparr>, memo)
      | None \<Rightarrow>
          (let (s1, result) = get_customer_body s em now
           in (s1\<lparr>lru_get_customer := lru_store (lru_get_customer s1) em result\<rparr>, result)))"

definition get_customer_by_email ::
  "revenue_manager \<Rightarrow> string \<Rightarrow> real \<Rightarrow> revenue_manager \<times> customer option" where
  "get_customer_by_email s em now = get_customer s em now"

text \<open>
  \<^verbatim>\<open>
  @lru_cache(maxsize=1000)
  def get_customer_by_api_key(self, api_key):
      if not SecurityUtils.validate_api_key(api_key):
          return None
      cache_key = f"customer_api_{api_key}"
      ... (as get_customer, with WHERE api_key = ?)
  \<close>
\<close>

definition get_customer_by_api_key_body ::
  "revenue_manager \<Rightarrow> string \<Rightarrow> real \<Rightarrow> revenue_manager \<times> customer option" where
  "get_customer_by_api_key_body s key now =
     (if \<not> validate_api_key key then (s, None)
      else
        (let cache_key = ''customer_api_'' @ key;
             (pc, cached_customer) = cache_get (rm_cache s) cache_key now;
             s1 = s\<lparr>rm_cache := pc\<rparr>
         in case cached_customer of
              Some c \<Rightarrow> (s1, Some c)
            | None \<Rightarrow>
                (case find (\<lambda>row. api_key row = key) (customers s1) of
                   None \<Rightarrow> (s1, None)
                 | Some row \<Rightarrow>
                     (case row_to_customer row of
                        None \<Rightarrow> (s1, None)
                      | Some c \<Rightarrow>
                          (s1\<lparr>rm_cache := cache_set (rm_cache s1) cache_key c (Some 600) now\<rparr>,
                           Some c)))))"

definition get_customer_by_api_key ::
  "revenue_manager \<Rightarrow> string \<Rightarrow> real \<Rightarrow> revenue_manager \<times> customer option" where
  "get_customer_by_api_key s key now =
     (case map_of (lru_get_customer_by_api_key s) key of
        Some memo \<Rightarrow>
          (s\<lparr>lru_get_customer_by_api_key := lru_hit (lru_get_customer_by_api_key s) key memo\<rparr>,
           memo)
      | None \<Rightarrow>
          (let (s1, result) = get_customer_by_api_key_body s key now
           in (s1\<lparr>lru_get_customer_by_api_key :=
                    lru_store (lru_get_customer_by_api_key s1) key result\<rparr>, result)))"

section \<open>IdentityStore: \<^verbatim>\<open>generate_api_key\<close> and \<^verbatim>\<open>create_customer\<close>\<close>

text \<open>
  \<^verbatim>\<open>
  def generate_api_key(self):
      random_part = secrets.token_urlsafe(18)[:23]
      api_key = f'gopt_{random_part}'
      ... SELECT COUNT(*) FROM customers WHERE api_key = ?
      if cursor.fetchone()[0] > 0:
          return self.generate_api_key()
      return api_key
  \<close>
  The list argument holds the successive results of \<^verbatim>\<open>secrets.token_urlsafe(18)\<close>, each
  of which is 24 characters of the URL-safe base64 alphabet. The result \<open>None\<close> stands
  for a recursion that was not ended by the tokens supplied.
\<close>

definition urlsafe_chars :: "citem list" where
  "urlsafe_chars = alnum @ [Lit CHR ''-'', Lit CHR ''_'']"

definition is_token_urlsafe_18 :: "string \<Rightarrow> bool" where
  "is_token_urlsafe_18 token = (length token = 24 \<and> list_all (in_class urlsafe_chars) token)"

fun generate_api_key :: "revenue_manager \<Rightarrow> string list \<Rightarrow> string option" where
  "generate_api_key s [] = None"
| "generate_api_key s (token # later) =
     (let random_part = take 23 token;
          key = ''gopt_'' @ random_part
      in if list_ex (\<lambda>row. api_key row = key) (customers s)
         then generate_api_key s later
         else Some key)"

text \<open>
  \<^verbatim>\<open>
  def create_customer(self, email, ip_address=None):
      email = SecurityUtils.sanitize_input(email)
      if not self.validate_email(email):
          raise ValueError("Invalid email format")
      if self.get_customer_by_email(email):
          raise ValueError("Customer already exists")
      api_key = self.generate_api_key()
      ...
      try:
          INSERT INTO customers (email, api_key, tier) VALUES (?, ?, 'free')
          INSERT INTO revenue_events (customer_email, event_type, metadata)
                 VALUES (?, 'signup', {'source': 'landing_page'})
          conn.commit()
          customer = Customer(email=email, tier='free', api_key=api_key,
                              created_at=datetime.now())
          self.send_onboarding_email(customer)
          return customer
      except sqlite3.IntegrityError:
          cursor.execute('SELECT * FROM customers WHERE email = ?', (email,))
          row = cursor.fetchone()
          return self.row_to_customer(row)
  \<close>
  Both \<^verbatim>\<open>email\<close> and \<^verbatim>\<open>api_key\<close> are UNIQUE columns, so the first INSERT raises
  \<^verbatim>\<open>IntegrityError\<close> when either value is already in the table. Logging and the
  welcome email do not touch the state and do not raise.
\<close>

definition new_customer :: "string \<Rightarrow> string \<Rightarrow> real \<Rightarrow> customer" where
  "new_customer em key now =
     \<lparr>email = em, tier = ''free'', api_key = key, created_at = now, last_payment = None,
      gpu_count = 0, monthly_savings = 0, flutterwave_customer_id = None,
      nowpayments_customer_id = None\<rparr>"

definition signup_event :: "string \<Rightarrow> revenue_event" where
  "signup_event em =
     \<lparr>event_email = em, event_type = ''signup'', event_amount = 0,
      event_metadata = [(''source'', ''landing_page'')]\<rparr>"

definition create_customer ::
  "revenue_manager \<Rightarrow> string \<Rightarrow> string list \<Rightarrow> real
     \<Rightarrow> revenue_manager \<times> (error + customer option)" where
  "create_customer s raw_email tokens now =
     (let em = sanitize_input raw_email
      in if \<not> validate_email em then (s, Inl (ValueError ''Invalid email format''))
         else
           (let (s1, existing) = get_customer_by_email s em now
            in case existing of
                 Some c \<Rightarrow> (s1, Inl (ValueError ''Customer already exists''))
               | None \<Rightarrow>
                   (case generate_api_key s1 tokens of
                      None \<Rightarrow> (s1, Inl RecursionError)
                    | Some key \<Rightarrow>
                        if list_ex (\<lambda>row. email row = em \<or> api_key row = key) (customers s1)
                        then (s1, Inr (case find (\<lambda>row. email row = em) (customers s1) of
                                         None \<Rightarrow> None
                                       | Some row \<Rightarrow> row_to_customer row))
                        else (s1\<lparr>customers := customers s1 @ [new_customer em key now],
                                 revenue_events := revenue_events s1 @ [signup_event em]\<rparr>,
                              Inr (Some (new_customer em key now))))))"

section \<open>IdentityStore: \<^verbatim>\<open>complete_upgrade\<close>\<close>

text \<open>
  \<^verbatim>\<open>
  def complete_upgrade(self, customer_email, new_tier, payment_id):
      conn = sqlite3.connect(self.db_path); cursor = conn.cursor()
      customer = self.get_customer(customer_email)
      cursor.execute('UPDATE customers SET tier = ?, last_payment = CURRENT_TIMESTAMP
                      WHERE email = ?', (new_tier, customer_email))
      cursor.execute('INSERT INTO revenue_events (customer_email, event_type, amount, metadata)
                      VALUES (?, 'upgrade', ?, ?)',
          (customer_email, self.pricing[new_tier]['price'],
           json.dumps({'from_tier': customer.tier, 'to_tier': new_tier,
                       'payment_id': payment_id})))
      conn.commit(); conn.close()
      self.send_upgrade_email(customer_email, new_tier)
  \<close>
  An unknown tier raises \<^verbatim>\<open>KeyError\<close> and an unknown customer \<^verbatim>\<open>AttributeError\<close> while
  the arguments of the second statement are evaluated, before the commit: the UPDATE is
  then lost with the connection. The method touches no cache.
\<close>

definition upgrade_event :: "string \<Rightarrow> int \<Rightarrow> string \<Rightarrow> string \<Rightarrow> string \<Rightarrow> revenue_event" where
  "upgrade_event em amount from_tier to_tier pid =
     \<lparr>event_email = em, event_type = ''upgrade'', event_amount = real_of_int amount,
      event_metadata = [(''from_tier'', from_tier), (''to_tier'', to_tier), (''payment_id'', pid)]\<rparr>"

definition complete_upgrade ::
  "revenue_manager \<Rightarrow> string \<Rightarrow> string \<Rightarrow> string \<Rightarrow> real \<Rightarrow> revenue_manager \<times> (error + unit)" where
  "complete_upgrade s customer_email new_tier pid now =
     (let (s1, found) = get_customer s customer_email now
      in case pricing new_tier of
           None \<Rightarrow> (s1, Inl (KeyError new_tier))
         | Some entry \<Rightarrow>
             (case found of
                None \<Rightarrow> (s1, Inl (AttributeError ''tier''))
              | Some c \<Rightarrow>
                  (s1\<lparr>customers :=
                        map (\<lambda>row. if email row = customer_email
                                    then row\<lparr>tier := new_tier, last_payment := Some now\<rparr>
                                    else row) (customers s1),
                      revenue_events := revenue_events s1 @
                        [upgrade_event customer_email (price entry) (tier c) new_tier pid]\<rparr>,
                   Inr ())))"

section \<open>UsageIngestor: \<^verbatim>\<open>track_gpu_usage\<close>\<close>

text \<open>
  The numbers of a usage report are Python floats: IEEE 754 doubles, on which every
  addition and multiplication rounds and which include infinities and NaN. Their type is
  the type variable \<open>'f\<close>, and the operations that the code applies to them are the
  fields of a parameter: \<open>fl_lit x\<close> is the float that Python holds for the numeric
  literal or integer operand \<open>x\<close>, \<open>fl_less\<close> is \<^verbatim>\<open><\<close>, \<open>fl_add\<close> is \<^verbatim>\<open>+\<close> and \<open>fl_mul\<close>
  is \<^verbatim>\<open>*\<close>. Whatever is proved for every such parameter holds for the doubles.
\<close>

record 'f float_ops =
  fl_lit :: "real \<Rightarrow> 'f"
  fl_less :: "'f \<Rightarrow> 'f \<Rightarrow> bool"
  fl_add :: "'f \<Rightarrow> 'f \<Rightarrow> 'f"
  fl_mul :: "'f \<Rightarrow> 'f \<Rightarrow> 'f"

text \<open>
  The result dict of \<^verbatim>\<open>track_gpu_usage\<close>: either \<^verbatim>\<open>{'error': message}\<close> or the summary
  with \<^verbatim>\<open>'status': 'success'\<close>.
\<close>

record 'f usage_summary =
  gpus_monitored :: nat
  potential_hourly_savings :: 'f
  monthly_projection :: 'f
  summary_tier :: string

datatype 'f track_result = TrackError string | TrackSuccess "'f usage_summary"

text \<open>
  The loop of \<^verbatim>\<open>_batch_process_gpu_data\<close>, with its two accumulators:
  \<^verbatim>\<open>
  total_savings = 0.0
  batch_data = []
  for gpu in gpu_data:
      if gpu['gpu_util'] < 15:
          cost_per_hour = gpu.get('cost_per_hour', 3.0)
          potential_savings = cost_per_hour * 0.5
          total_savings += potential_savings
      else:
          potential_savings = 0.0
      batch_data.append((customer.email, gpu['gpu_index'], gpu['gpu_name'], gpu['gpu_util'],
                         gpu['mem_used'], gpu['mem_total'], gpu.get('cost_per_hour', 3.0),
                         potential_savings))
  \<close>
  A missing key raises \<^verbatim>\<open>KeyError\<close>: the result is \<open>None\<close>.
\<close>

definition cost_or_default :: "'f float_ops \<Rightarrow> 'f gpu_sample \<Rightarrow> 'f" where
  "cost_or_default ops gpu = (case cost_per_hour gpu of None \<Rightarrow> fl_lit ops 3.0 | Some c \<Rightarrow> c)"

fun prepare_batch ::
  "'f float_ops \<Rightarrow> string \<Rightarrow> 'f gpu_sample list \<Rightarrow> 'f \<Rightarrow> 'f usage_log list
     \<Rightarrow> ('f \<times> 'f usage_log list) option" where
  "prepare_batch ops em [] total_savings batch_data = Some (total_savings, batch_data)"
| "prepare_batch ops em (gpu # later) total_savings batch_data =
     (case gpu_util gpu of
        None \<Rightarrow> None
      | Some util \<Rightarrow>
          (let idle = fl_less ops util (fl_lit ops 15);
               potential_savings =
                 (if idle then fl_mul ops (cost_or_default ops gpu) (fl_lit ops 0.5)
                  else fl_lit ops 0.0);
               total1 = (if idle then fl_add ops total_savings potential_savings
                         else total_savings)
           in case gpu_index gpu of
                None \<Rightarrow> None
              | Some idx \<Rightarrow>
                  (case gpu_name gpu of
                     None \<Rightarrow> None
                   | Some name \<Rightarrow>
                       (case mem_used gpu of
                          None \<Rightarrow> None
                        | Some mused \<Rightarrow>
                            (case mem_total gpu of
                               None \<Rightarrow> None
                             | Some mtotal \<Rightarrow>
                                 prepare_batch ops em later total1
                                   (batch_data @
                                     [\<lparr>log_email = em, log_gpu_index = idx, log_gpu_name = name,
                                       log_gpu_util = util, log_mem_used = mused,
                                       log_mem_total = mtotal,
                                       log_cost_per_hour = cost_or_default ops gpu,
                                       log_potential_savings = potential_savings\<rparr>]))))))"

text \<open>
  \<^verbatim>\<open>
  def _batch_process_gpu_data(self, customer, gpu_data):
      try:
          with self.db_pool.get_connection() as conn:
              ... the loop ...
              cursor.executemany('INSERT INTO gpu_usage_logs ...', batch_data)
              cursor.execute('UPDATE customers SET gpu_count = ?,
                              monthly_savings = monthly_savings + ? WHERE email = ?',
                             (len(gpu_data), total_savings * 24 * 30, customer.email))
              conn.commit()
              self.cache.delete(f"customer_email_{customer.email}")
              self.cache.delete(f"customer_api_{customer.api_key}")
              return {'status': 'success', 'gpus_monitored': len(gpu_data),
                      'potential_hourly_savings': total_savings,
                      'monthly_projection': total_savings * 24 * 30, 'tier': customer.tier}
      except sqlite3.Error as e:
          return {'error': 'Database error occurred'}
      except Exception as e:
          return {'error': 'Internal server error'}
  \<close>
  The three storage statements (the batch insert, the update of the aggregates and the
  commit) are a parameter \<open>write_batch\<close>: SQLite decides whether they succeed. The insert
  can fail part-way (an integer outside 64 bits, any \<^verbatim>\<open>sqlite3.Error\<close>), and the pooled
  connection then keeps what was written in its open transaction; so the parameter
  returns, with its outcome, the state that it leaves behind.
\<close>

datatype write_outcome =
    Committed revenue_manager
  | DatabaseError revenue_manager
  | OtherException revenue_manager

type_synonym 'f storage =
  "revenue_manager \<Rightarrow> customer \<Rightarrow> 'f usage_log list \<Rightarrow> nat \<Rightarrow> 'f \<Rightarrow> write_outcome"

definition batch_process_gpu_data ::
  "'f float_ops \<Rightarrow> 'f storage \<Rightarrow> revenue_manager \<Rightarrow> customer \<Rightarrow> 'f gpu_sample list
     \<Rightarrow> revenue_manager \<times> 'f track_result" where
  "batch_process_gpu_data ops write_batch s c gpu_data =
     (case prepare_batch ops (email c) gpu_data (fl_lit ops 0.0) [] of
        None \<Rightarrow> (s, TrackError ''Internal server error'')
      | Some (total_savings, batch_data) \<Rightarrow>
          (let monthly = fl_mul ops (fl_mul ops total_savings (fl_lit ops 24)) (fl_lit ops 30)
           in case write_batch s c batch_data (length gpu_data) monthly of
                DatabaseError s1 \<Rightarrow> (s1, TrackError ''Database error occurred'')
              | OtherException s1 \<Rightarrow> (s1, TrackError ''Internal server error'')
              | Committed s1 \<Rightarrow>
                  (s1\<lparr>rm_cache :=
                        cache_delete (cache_delete (rm_cache s1) (''customer_email_'' @ email c))
                          (''customer_api_'' @ api_key c)\<rparr>,
                   TrackSuccess \<lparr>gpus_monitored = length gpu_data,
                                 potential_hourly_savings = total_savings,
                                 monthly_projection = monthly,
                                 summary_tier = tier c\<rparr>)))"

text \<open>
  \<^verbatim>\<open>
  def track_gpu_usage(self, api_key, gpu_data):
      customer = self.get_customer_by_api_key(api_key)
      if not customer:
          return {'error': 'Invalid API key'}
      if customer.tier == 'free' and len(gpu_data) > self.pricing['free']['gpu_limit']:
          return {'error': f'Free tier limited to {self.pricing["free"]["gpu_limit"]} GPUs.
                             Upgrade to Professional.'}
      return self._batch_process_gpu_data(customer, gpu_data)
  \<close>
\<close>

definition track_gpu_usage ::
  "'f float_ops \<Rightarrow> 'f storage \<Rightarrow> revenue_manager \<Rightarrow> string \<Rightarrow> 'f gpu_sample list \<Rightarrow> real
     \<Rightarrow> revenue_manager \<times> 'f track_result" where
  "track_gpu_usage ops write_batch s key gpu_data now =
     (let (s1, found) = get_customer_by_api_key s key now
      in case found of
           None \<Rightarrow> (s1, TrackError ''Invalid API key'')
         | Some c \<Rightarrow>
             if tier c = ''free'' \<and> gpu_limit pricing_free < enat (length gpu_data)
             then (s1, TrackError ''Free tier limited to 2 GPUs. Upgrade to Professional.'')
             else batch_process_gpu_data ops write_batch s1 c gpu_data)"






text \<open>
  Two instances of the parameters, for the evaluation of examples: the arithmetic of
  the real numbers, in which nothing rounds, and a storage step in which every statement
  succeeds.
\<close>

definition exact_arithmetic :: "real float_ops" where
  "exact_arithmetic = \<lparr>fl_lit = (\<lambda>x. x), fl_less = (\<lambda>x y. x < y), fl_add = (\<lambda>x y. x + y),
                        fl_mul = (\<lambda>x y. x * y)\<rparr>"

definition storage_succeeds :: "real storage" where
  "storage_succeeds s c batch_data n monthly =
     Committed
       (s\<lparr>gpu_usage_logs := gpu_usage_logs s @ batch_data,
          customers :=
            map (\<lambda>row. if email row = email c
                        then row\<lparr>gpu_count := int n,
                                 monthly_savings := monthly_savings row + monthly\<rparr>
                        else row) (customers s)\<rparr>)"

section \<open>PaymentOrchestrator: the transaction table\<close>

text \<open>
  \<^verbatim>\<open>
  def store_payment_transaction(self, customer_email, payment_id, payment_gateway,
                                amount, currency, status, metadata):
      INSERT OR REPLACE INTO payment_transactions
        (customer_email, payment_id, payment_gateway, amount, currency, status, metadata,
         updated_at) VALUES (?, ?, ?, ?, ?, ?, ?, CURRENT_TIMESTAMP)
  def update_payment_status(self, payment_id, status, metadata=None):
      if metadata:
          UPDATE payment_transactions SET status = ?, metadata = ?,
                 updated_at = CURRENT_TIMESTAMP WHERE payment_id = ?
      else:
          UPDATE payment_transactions SET status = ?, updated_at = CURRENT_TIMESTAMP
                 WHERE payment_id = ?
  \<close>
  \<^verbatim>\<open>INSERT OR REPLACE\<close> deletes the row that holds the same UNIQUE \<^verbatim>\<open>payment_id\<close> and
  inserts the new one.
\<close>

definition store_payment_transaction ::
  "revenue_manager \<Rightarrow> string \<Rightarrow> string \<Rightarrow> string \<Rightarrow> real \<Rightarrow> string \<Rightarrow> string \<Rightarrow> string \<Rightarrow> real
     \<Rightarrow> revenue_manager" where
  "store_payment_transaction s customer_email pid gateway amount currency st metadata now =
     s\<lparr>payment_transactions :=
         filter (\<lambda>row. payment_id row \<noteq> pid) (payment_transactions s) @
         [\<lparr>payment_email = customer_email, payment_id = pid, payment_gateway = gateway,
           payment_amount = amount, payment_currency = currency, status = st,
           payment_metadata = metadata, updated_at = now\<rparr>]\<rparr>"

definition update_payment_status ::
  "revenue_manager \<Rightarrow> string \<Rightarrow> string \<Rightarrow> string option \<Rightarrow> real \<Rightarrow> revenue_manager" where
  "update_payment_status s pid st metadata now =
     s\<lparr>payment_transactions :=
         map (\<lambda>row. if payment_id row = pid
                     then (case metadata of
                             None \<Rightarrow> row\<lparr>status := st, updated_at := now\<rparr>
                           | Some m \<Rightarrow>
                               if m = [] then row\<lparr>status := st, updated_at := now\<rparr>
                               else row\<lparr>status := st, payment_metadata := m, updated_at := now\<rparr>)
                     else row) (payment_transactions s)\<rparr>"

text \<open>The stored status of a payment, if the table has a row for it.\<close>

definition status_of :: "revenue_manager \<Rightarrow> string \<Rightarrow> string option" where
  "status_of s pid = map_option status (find (\<lambda>row. payment_id row = pid) (payment_transactions s))"

section \<open>PaymentOrchestrator: \<^verbatim>\<open>GlobalPaymentSystem\<close>\<close>

text \<open>
  The credential fields of \<^verbatim>\<open>self.primary_gateways\<close>, each the result of \<^verbatim>\<open>os.getenv\<close>
  (\<open>None\<close> when the variable is not set). A value is true in Python when it is a
  non-empty string.
\<close>

record credentials =
  nowpayments_api_key :: "string option"
  flutterwave_secret_key :: "string option"
  paddle_vendor_id :: "string option"
  paddle_vendor_auth_code :: "string option"

definition truthy :: "string option \<Rightarrow> bool" where
  "truthy v = (case v of None \<Rightarrow> False | Some x \<Rightarrow> x \<noteq> [])"

definition no_credentials :: credentials where
  "no_credentials = \<lparr>nowpayments_api_key = None, flutterwave_secret_key = None,
                     paddle_vendor_id = None, paddle_vendor_auth_code = None\<rparr>"

record payment_result =
  success :: bool
  transaction_id :: "string option"
  amount :: real
  currency :: string
  gateway :: string
  result_status :: string
  message :: string
  payment_url :: "string option"

text \<open>
  \<^verbatim>\<open>
  def _is_gateway_configured(self, gateway_id):
      gateway = self.primary_gateways.get(gateway_id)
      if not gateway:
          return False
      if gateway_id == 'nowpayments':
          return bool(gateway['api_key'])
      elif gateway_id == 'flutterwave':
          return bool(gateway['secret_key'])
      elif gateway_id == 'paddle':
          return bool(gateway['vendor_id'] and gateway['vendor_auth_code'])
      return False
  \<close>
  The dict \<^verbatim>\<open>primary_gateways\<close> has the three keys \<^verbatim>\<open>nowpayments\<close>, \<^verbatim>\<open>flutterwave\<close>
  and \<^verbatim>\<open>paddle\<close>.
\<close>

definition is_gateway_configured :: "credentials \<Rightarrow> string \<Rightarrow> bool" where
  "is_gateway_configured cfg gateway_id =
     (if gateway_id \<notin> set [''nowpayments'', ''flutterwave'', ''paddle''] then False
      else if gateway_id = ''nowpayments'' then truthy (nowpayments_api_key cfg)
      else if gateway_id = ''flutterwave'' then truthy (flutterwave_secret_key cfg)
      else if gateway_id = ''paddle''
        then truthy (paddle_vendor_id cfg) \<and> truthy (paddle_vendor_auth_code cfg)
      else False)"

text \<open>
  \<^verbatim>\<open>
  def _select_best_gateway(self, country_code=None):
      if country_code:
          if country_code in ['NG', 'GH', 'KE', 'UG', 'ZA', 'TZ', 'RW', 'ZM']:
              if self._is_gateway_configured('flutterwave'):
                  return 'flutterwave'
          elif country_code in ['US', 'GB', ..., 'MX']:
              if self._is_gateway_configured('flutterwave'):
                  return 'flutterwave'
              elif self._is_gateway_configured('paddle'):
                  return 'paddle'
      if self._is_gateway_configured('flutterwave'):
          return 'flutterwave'
      if self._is_gateway_configured('nowpayments'):
          return 'nowpayments'
      if self._is_gateway_configured('paddle'):
          return 'paddle'
      return 'demo'
  \<close>
\<close>

definition african_countries :: "string list" where
  "african_countries = [''NG'', ''GH'', ''KE'', ''UG'', ''ZA'', ''TZ'', ''RW'', ''ZM'']"

definition developed_countries :: "string list" where
  "developed_countries =
     [''US'', ''GB'', ''CA'', ''AU'', ''FR'', ''DE'', ''IT'', ''ES'', ''NL'', ''BE'', ''CH'',
      ''SE'', ''DK'', ''NO'', ''FI'', ''BR'', ''MX'']"

definition regional_choice :: "credentials \<Rightarrow> string option \<Rightarrow> string option" where
  "regional_choice cfg country_code =
     (if truthy country_code then
        (case country_code of
           None \<Rightarrow> None
         | Some cc \<Rightarrow>
             if cc \<in> set african_countries then
               (if is_gateway_configured cfg ''flutterwave'' then Some ''flutterwave'' else None)
             else if cc \<in> set developed_countries then
               (if is_gateway_configured cfg ''flutterwave'' then Some ''flutterwave''
                else if is_gateway_configured cfg ''paddle'' then Some ''paddle''
                else None)
             else None)
      else None)"

definition select_best_gateway :: "credentials \<Rightarrow> string option \<Rightarrow> string" where
  "select_best_gateway cfg country_code =
     (case regional_choice cfg country_code of
        Some g \<Rightarrow> g
      | None \<Rightarrow>
          if is_gateway_configured cfg ''flutterwave'' then ''flutterwave''
          else if is_gateway_configured cfg ''nowpayments'' then ''nowpayments''
          else if is_gateway_configured cfg ''paddle'' then ''paddle''
          else ''demo'')"

text \<open>
  \<^verbatim>\<open>
  def create_payment(self, amount, currency, plan, customer_email, gateway=None,
                     country_code=None):
      try:
          if not gateway:
              gateway = self._select_best_gateway(country_code)
          if not self._is_gateway_configured(gateway):
              raise ValueError(f"Gateway {gateway} is not configured")
          if gateway == 'nowpayments':
              return self._create_nowpayments_payment(amount, currency, plan, customer_email)
          elif gateway == 'paypal': ...
          elif gateway == 'paddle':
              return self._create_paddle_payment(amount, currency, plan, customer_email)
          elif gateway == 'razorpay': ...
          elif gateway == 'flutterwave':
              return self._create_flutterwave_payment(amount, currency, plan, customer_email)
          elif gateway == 'demo':
              return self._create_demo_payment(amount, currency, plan, customer_email)
          else:
              raise ValueError(f"Unsupported gateway: {gateway}")
      except Exception as e:
          return PaymentResult(success=False, transaction_id=None, amount=amount,
                               currency=currency, gateway=gateway or 'unknown',
                               status='failed', message=str(e))
  \<close>
  The NOWPayments adapter talks to the network and is a parameter. The class defines no
  method \<^verbatim>\<open>_create_paddle_payment\<close>, \<^verbatim>\<open>_create_razorpay_payment\<close> or
  \<^verbatim>\<open>_create_flutterwave_payment\<close>, so these branches raise \<^verbatim>\<open>AttributeError\<close>, which the
  handler turns into a failed result; the PayPal adapter fails on the missing
  \<^verbatim>\<open>primary_gateways['paypal']\<close> and returns its own failed result. The demo adapter
  takes the 12 hexadecimal digits of \<^verbatim>\<open>uuid.uuid4().hex[:12]\<close> as a parameter.
\<close>

definition failed_result :: "real \<Rightarrow> string \<Rightarrow> string \<Rightarrow> string \<Rightarrow> payment_result" where
  "failed_result amt cur gw msg =
     \<lparr>success = False, transaction_id = None, amount = amt, currency = cur,
      gateway = (if gw = [] then ''unknown'' else gw), result_status = ''failed'',
      message = msg, payment_url = None\<rparr>"

definition create_demo_payment :: "string \<Rightarrow> real \<Rightarrow> string \<Rightarrow> payment_result" where
  "create_demo_payment uuid_hex amt cur =
     \<lparr>success = True, transaction_id = Some (''demo_'' @ uuid_hex), amount = amt,
      currency = cur, gateway = ''demo'', result_status = ''pending'',
      message = ''Demo payment created - this is for testing only'',
      payment_url = Some (''https://demo-payment.gpuoptimizer.com/pay/'' @ ''demo_'' @ uuid_hex)\<rparr>"

definition missing_method :: "string \<Rightarrow> string" where
  "missing_method name =
     [CHR 0x27] @ ''GlobalPaymentSystem'' @ [CHR 0x27] @ '' object has no attribute '' @
     [CHR 0x27] @ name @ [CHR 0x27]"

definition create_payment ::
  "credentials \<Rightarrow> (real \<Rightarrow> string \<Rightarrow> string \<Rightarrow> string \<Rightarrow> payment_result) \<Rightarrow> string
     \<Rightarrow> real \<Rightarrow> string \<Rightarrow> string \<Rightarrow> string \<Rightarrow> string option \<Rightarrow> string option
     \<Rightarrow> payment_result" where
  "create_payment cfg create_nowpayments_payment uuid_hex amt cur plan customer_email
       gateway_arg country_code =
     (let gw = (if truthy gateway_arg
                then (case gateway_arg of Some g \<Rightarrow> g | None \<Rightarrow> [])
                else select_best_gateway cfg country_code)
      in if \<not> is_gateway_configured cfg gw
         then failed_result amt cur gw (''Gateway '' @ gw @ '' is not configured'')
         else if gw = ''nowpayments'' then create_nowpayments_payment amt cur plan customer_email
         else if gw = ''paypal''
           then failed_result amt cur ''paypal'' ([CHR 0x27] @ ''paypal'' @ [CHR 0x27])
         else if gw = ''paddle''
           then failed_result amt cur gw (missing_method ''_create_paddle_payment'')
         else if gw = ''razorpay''
           then failed_result amt cur gw (missing_method ''_create_razorpay_payment'')
         else if gw = ''flutterwave''
           then failed_result amt cur gw (missing_method ''_create_flutterwave_payment'')
         else if gw = ''demo'' then create_demo_payment uuid_hex amt cur
         else failed_result amt cur gw (''Unsupported gateway: '' @ gw))"

section \<open>AccessGuard: \<^verbatim>\<open>RevenueManager.check_rate_limit\<close>\<close>

text \<open>\<^verbatim>\<open>self.rate_limits\<close>: a dict from identifier to the list of request timestamps.\<close>

type_synonym rate_limits = "string \<rightharpoonup> real list"

text \<open>
  \<^verbatim>\<open>
  def check_rate_limit(self, identifier, limit, window=3600):
      now = time.time()
      if identifier not in self.rate_limits:
          self.rate_limits[identifier] = []
      self.rate_limits[identifier] = [
          timestamp for timestamp in self.rate_limits[identifier]
          if now - timestamp < window]
      if len(self.rate_limits[identifier]) >= limit:
          return False
      self.rate_limits[identifier].append(now)
      return True
  \<close>
\<close>

definition stamps_of :: "rate_limits \<Rightarrow> string \<Rightarrow> real list" where
  "stamps_of rl identifier = (case rl identifier of None \<Rightarrow> [] | Some ts \<Rightarrow> ts)"

definition check_rate_limit ::
  "rate_limits \<Rightarrow> string \<Rightarrow> int \<Rightarrow> real \<Rightarrow> real \<Rightarrow> rate_limits \<times> bool" where
  "check_rate_limit rl identifier limit window now =
     (let rl1 = (if rl identifier = None then rl(identifier \<mapsto> []) else rl);
          rl2 = rl1(identifier \<mapsto>
                  filter (\<lambda>timestamp. now - timestamp < window) (stamps_of rl1 identifier))
      in if limit \<le> int (length (stamps_of rl2 identifier)) then (rl2, False)
         else (rl2(identifier \<mapsto> stamps_of rl2 identifier @ [now]), True))"

text \<open>A sequence of calls for one identifier, one per clock reading, collecting the answers.\<close>

fun check_rate_limit_calls ::
  "rate_limits \<Rightarrow> string \<Rightarrow> int \<Rightarrow> real \<Rightarrow> real list \<Rightarrow> rate_limits \<times> bool list" where
  "check_rate_limit_calls rl identifier limit window [] = (rl, [])"
| "check_rate_limit_calls rl identifier limit window (now # later) =
     (let (rl1, ok) = check_rate_limit rl identifier limit window now;
          (rl2, oks) = check_rate_limit_calls rl1 identifier limit window later
      in (rl2, ok # oks))"

section \<open>Scenarios\<close>

text \<open>A transaction that was stored as completed.\<close>

definition completed_payment :: revenue_manager where
  "completed_payment =
     store_payment_transaction fresh_manager ''dev@example.com'' ''gopt_0123456789ab''
       ''flutterwave'' 49 ''USD'' ''completed'' ''verified'' 0"

text \<open>
  A first signup on a fresh manager; the token is a possible result of
  \<^verbatim>\<open>secrets.token_urlsafe(18)\<close>.
\<close>

definition signup :: "revenue_manager \<times> (error + customer option)" where
  "signup = create_customer fresh_manager ''dev@example.com'' [''abcdefghijklmnopqrstuvwx''] 0"

definition dev_customer :: customer where
  "dev_customer = new_customer ''dev@example.com'' ''gopt_abcdefghijklmnopqrstuvw'' 0"

text \<open>A second signup with the same email, on the state the first one left.\<close>

definition second_signup :: "revenue_manager \<times> (error + customer option)" where
  "second_signup =
     create_customer (fst signup) ''dev@example.com'' [''ABCDEFGHIJKLMNOPQRSTUVWX''] 2"

text \<open>
  A manager started on the database that holds the customer: a lookup by API key, the
  completion of an upgrade to \<^verbatim>\<open>professional\<close>, and the same lookup again.
\<close>

definition before_upgrade :: "revenue_manager \<times> customer option" where
  "before_upgrade =
     get_customer_by_api_key (restarted (fst signup)) ''gopt_abcdefghijklmnopqrstuvw'' 10"

definition upgraded :: "revenue_manager \<times> (error + unit)" where
  "upgraded =
     complete_upgrade (fst before_upgrade) ''dev@example.com'' ''professional'' ''pay_1'' 20"

definition after_upgrade :: "revenue_manager \<times> customer option" where
  "after_upgrade = get_customer_by_api_key (fst upgraded) ''gopt_abcdefghijklmnopqrstuvw'' 30"

text \<open>A signup whose token has a hyphen, and a manager started on the resulting database.\<close>

definition hyphen_signup :: "revenue_manager \<times> (error + customer option)" where
  "hyphen_signup =
     create_customer fresh_manager ''dev@example.com'' [''abcdefghij-lmnopqrstuvwx''] 0"

text \<open>
  Signups on a fresh manager with an email that has a quote character
  (\<^verbatim>\<open>dev'@example.com\<close>) and with an email that follows 300 spaces.
\<close>

definition quoted_email :: string where
  "quoted_email = ''dev'' @ [CHR 0x27] @ ''@example.com''"

definition padded_email :: string where
  "padded_email = replicate 300 CHR '' '' @ ''dev@example.com''"

definition quoted_signup :: "revenue_manager \<times> (error + customer option)" where
  "quoted_signup = create_customer fresh_manager quoted_email [''abcdefghijklmnopqrstuvwx''] 0"

definition padded_signup :: "revenue_manager \<times> (error + customer option)" where
  "padded_signup = create_customer fresh_manager padded_email [''abcdefghijklmnopqrstuvwx''] 0"

text \<open>An email with a control character (BEL) in it.\<close>

definition bell_email :: string where
  "bell_email = ''de'' @ [CHR 0x07] @ ''v@example.com''"

text \<open>
  Usage reports: one idle GPU of cost 3.0 reported to a manager started on the database
  that holds the free-tier customer, and a batch of three records reported with the key
  of the free-tier customer that the signup with the hyphen token stored.
\<close>

definition idle_gpu :: "real gpu_sample" where
  "idle_gpu = \<lparr>gpu_index = Some 0, gpu_name = Some ''Tesla V100'', gpu_util = Some 5,
                mem_used = Some 1000, mem_total = Some 16000, cost_per_hour = Some 3.0\<rparr>"


definition hyphen_key_report :: "revenue_manager \<times> real track_result" where
  "hyphen_key_report =
     track_gpu_usage exact_arithmetic storage_succeeds (restarted (fst hyphen_signup))
       ''gopt_abcdefghij-lmnopqrstuvw'' [idle_gpu, idle_gpu, idle_gpu] 40"

text \<open>
  A manager started on a database that holds the customer as \<^verbatim>\<open>professional\<close>: a lookup by
  API key, a \<^verbatim>\<open>complete_upgrade\<close> that sets the tier to \<^verbatim>\<open>free\<close>, and then a batch of three
  records, with exact arithmetic and a storage step that succeeds.
\<close>

definition professional_db :: revenue_manager where
  "professional_db = fresh_manager\<lparr>customers := [dev_customer\<lparr>tier := ''professional''\<rparr>]\<rparr>"

definition set_to_free :: "revenue_manager \<times> (error + unit)" where
  "set_to_free =
     complete_upgrade
       (fst (get_customer_by_api_key professional_db ''gopt_abcdefghijklmnopqrstuvw'' 10))
       ''dev@example.com'' ''free'' ''pay_2'' 20"

definition report_after_set_to_free :: "revenue_manager \<times> real track_result" where
  "report_after_set_to_free =
     track_gpu_usage exact_arithmetic storage_succeeds (fst set_to_free)
       ''gopt_abcdefghijklmnopqrstuvw'' [idle_gpu, idle_gpu, idle_gpu] 30"

section \<open>Properties of the rate limiter\<close>

lemma stamps_of_upd [simp]: "stamps_of (rl(i \<mapsto> ts)) i = ts"
  by (simp add: stamps_of_def)

lemma check_rate_limit_answer:
  "snd (check_rate_limit rl i limit window now) =
     (int (length (filter (\<lambda>t. now - t < window) (stamps_of rl i))) < limit)"
  by (auto simp: check_rate_limit_def Let_def stamps_of_def split: option.splits)

lemma check_rate_limit_stored:
  "stamps_of (fst (check_rate_limit rl i limit window now)) i =
     (let pruned = filter (\<lambda>t. now - t < window) (stamps_of rl i)
      in if int (length pruned) < limit then pruned @ [now] else pruned)"
  by (auto simp: check_rate_limit_def Let_def stamps_of_def split: option.splits)

lemma check_rate_limit_others:
  "j \<noteq> i \<Longrightarrow> fst (check_rate_limit rl i limit window now) j = rl j"
  by (simp add: check_rate_limit_def Let_def)

lemma check_rate_limit_allow:
  assumes "int (length (filter (\<lambda>t. now - t < window) (stamps_of rl i))) < limit"
  shows "check_rate_limit rl i limit window now =
           (rl(i \<mapsto> filter (\<lambda>t. now - t < window) (stamps_of rl i) @ [now]), True)"
  using assms by (auto simp: check_rate_limit_def Let_def stamps_of_def split: option.splits)

lemma check_rate_limit_deny:
  assumes "limit \<le> int (length (filter (\<lambda>t. now - t < window) (stamps_of rl i)))"
  shows "check_rate_limit rl i limit window now =
           (rl(i \<mapsto> filter (\<lambda>t. now - t < window) (stamps_of rl i)), False)"
  using assms by (auto simp: check_rate_limit_def Let_def stamps_of_def split: option.splits)

lemma check_rate_limit_scenario:
  assumes fresh: "stamps_of rl i = []"
    and ord: "t1 \<le> t2" "t2 \<le> t3" "t3 \<le> t4" "t4 \<le> t5" "t5 \<le> t6" "t6 \<le> t7"
    and within: "t6 - t1 < 60" and aged: "60 \<le> t7 - t1"
  shows "snd (check_rate_limit_calls rl i 5 60 [t1, t2, t3, t4, t5, t6, t7]) =
           [True, True, True, True, True, False, True]"
proof -
  let ?c = "\<lambda>r t. check_rate_limit r i 5 60 t"
  have s1: "?c rl t1 = (rl(i \<mapsto> [t1]), True)"
    using fresh by (simp add: check_rate_limit_allow)
  have s2: "?c (rl(i \<mapsto> [t1])) t2 = (rl(i \<mapsto> [t1, t2]), True)"
    using ord within by (simp add: check_rate_limit_allow)
  have s3: "?c (rl(i \<mapsto> [t1, t2])) t3 = (rl(i \<mapsto> [t1, t2, t3]), True)"
    using ord within by (simp add: check_rate_limit_allow)
  have s4: "?c (rl(i \<mapsto> [t1, t2, t3])) t4 = (rl(i \<mapsto> [t1, t2, t3, t4]), True)"
    using ord within by (simp add: check_rate_limit_allow)
  have s5: "?c (rl(i \<mapsto> [t1, t2, t3, t4])) t5 = (rl(i \<mapsto> [t1, t2, t3, t4, t5]), True)"
    using ord within by (simp add: check_rate_limit_allow)
  have s6: "?c (rl(i \<mapsto> [t1, t2, t3, t4, t5])) t6 = (rl(i \<mapsto> [t1, t2, t3, t4, t5]), False)"
    using ord within by (simp add: check_rate_limit_deny)
  have "length (filter (\<lambda>t. t7 - t < 60) [t1, t2, t3, t4, t5]) \<le> 4"
  proof -
    have "filter (\<lambda>t. t7 - t < 60) [t1, t2, t3, t4, t5] =
            filter (\<lambda>t. t7 - t < 60) [t2, t3, t4, t5]"
      using aged by simp
    moreover have "length (filter (\<lambda>t. t7 - t < 60) [t2, t3, t4, t5]) \<le> length [t2, t3, t4, t5]"
      by (rule length_filter_le)
    ultimately show ?thesis by simp
  qed
  then have s7: "snd (?c (rl(i \<mapsto> [t1, t2, t3, t4, t5])) t7) = True"
    by (simp add: check_rate_limit_answer)
  show ?thesis
    by (simp add: s1 s2 s3 s4 s5 s6 s7 split_beta Let_def)
qed

text \<open>
  Claim C7. For every identifier, \<^verbatim>\<open>check_rate_limit\<close> first prunes the stored timestamps
  that have left the window (it keeps exactly those with \<open>now - timestamp < window\<close>), answers
  \<open>False\<close> and records no new timestamp when the number of kept timestamps has reached
  \<open>limit\<close>, and otherwise appends \<open>now\<close> and answers \<open>True\<close>; other identifiers are
  untouched. In particular, with \<open>limit = 5\<close> and \<open>window = 60\<close>, for a fresh identifier and
  six calls inside one window, the first five are allowed and the sixth is denied, and a
  later call made once the oldest timestamp is at least 60 seconds old is allowed again.
\<close>

theorem check_rate_limit_prunes_counts_records:
  "(let pruned = filter (\<lambda>timestamp. now - timestamp < window) (stamps_of rl i);
        result = check_rate_limit rl i limit window now
    in snd result = (int (length pruned) < limit)
       \<and> stamps_of (fst result) i = (if snd result then pruned @ [now] else pruned)
       \<and> (\<forall>j. j \<noteq> i \<longrightarrow> fst result j = rl j))
   \<and> (stamps_of rl i = [] \<and> t1 \<le> t2 \<and> t2 \<le> t3 \<and> t3 \<le> t4 \<and> t4 \<le> t5 \<and> t5 \<le> t6 \<and> t6 \<le> t7
        \<and> t6 - t1 < 60 \<and> 60 \<le> t7 - t1
      \<longrightarrow> snd (check_rate_limit_calls rl i 5 60 [t1, t2, t3, t4, t5, t6, t7]) =
            [True, True, True, True, True, False, True])"
proof (intro conjI impI)
  show "let pruned = filter (\<lambda>timestamp. now - timestamp < window) (stamps_of rl i);
            result = check_rate_limit rl i limit window now
        in snd result = (int (length pruned) < limit)
           \<and> stamps_of (fst result) i = (if snd result then pruned @ [now] else pruned)
           \<and> (\<forall>j. j \<noteq> i \<longrightarrow> fst result j = rl j)"
    by (simp add: Let_def check_rate_limit_answer check_rate_limit_stored
        check_rate_limit_others)
next
  assume "stamps_of rl i = [] \<and> t1 \<le> t2 \<and> t2 \<le> t3 \<and> t3 \<le> t4 \<and> t4 \<le> t5 \<and> t5 \<le> t6 \<and> t6 \<le> t7
        \<and> t6 - t1 < 60 \<and> 60 \<le> t7 - t1"
  then show "snd (check_rate_limit_calls rl i 5 60 [t1, t2, t3, t4, t5, t6, t7]) =
            [True, True, True, True, True, False, True]"
    by (intro check_rate_limit_scenario) simp_all
qed

theorem check_rate_limit_prunes_counts_records_witness:
  "snd (check_rate_limit (Map.empty(''test_user'' \<mapsto> [0, 10, 70])) ''test_user'' 1 60 100) = False
   \<and> stamps_of (fst (check_rate_limit (Map.empty(''test_user'' \<mapsto> [0, 10, 70])) ''test_user'' 3 60 100))
        ''test_user'' = [70, 100]
   \<and> snd (check_rate_limit_calls Map.empty ''test_user'' 5 60 [0, 10, 20, 30, 40, 50, 61]) =
        [True, True, True, True, True, False, True]"
proof -
  have a: "snd (check_rate_limit (Map.empty(''test_user'' \<mapsto> [0, 10, 70])) ''test_user'' 1 60 100) = False"
    using check_rate_limit_prunes_counts_records
      [of 100 60 "Map.empty(''test_user'' \<mapsto> [0, 10, 70])" "''test_user''" 1]
    by (simp add: Let_def)
  have b: "stamps_of (fst (check_rate_limit (Map.empty(''test_user'' \<mapsto> [0, 10, 70])) ''test_user'' 3 60 100))
        ''test_user'' = [70, 100]"
    using check_rate_limit_prunes_counts_records
      [of 100 60 "Map.empty(''test_user'' \<mapsto> [0, 10, 70])" "''test_user''" 3]
    by (simp add: Let_def)
  have c: "snd (check_rate_limit_calls Map.empty ''test_user'' 5 60 [0, 10, 20, 30, 40, 50, 61]) =
        [True, True, True, True, True, False, True]"
    using check_rate_limit_prunes_counts_records
      [of _ _ Map.empty "''test_user''" _ 0 10 20 30 40 50 61]
    by (simp add: stamps_of_def)
  from a b c show ?thesis by simp
qed

section \<open>Gateway selection and payment creation without credentials\<close>

lemma no_credentials_unconfigured: "is_gateway_configured no_credentials g = False"
  by (simp add: is_gateway_configured_def no_credentials_def truthy_def)

lemma select_unconfigured: "select_best_gateway no_credentials country_code = ''demo''"
  by (simp add: select_best_gateway_def regional_choice_def no_credentials_unconfigured
      split: option.splits)

text \<open>
  Claim C2. With no credential set, \<^verbatim>\<open>_select_best_gateway\<close> returns \<^verbatim>\<open>demo\<close> for
  every country code, but \<^verbatim>\<open>create_payment\<close> with the gateway left out then checks
  \<^verbatim>\<open>_is_gateway_configured('demo')\<close>, which is false, and returns the failed result of
  its exception handler: the call of \<^verbatim>\<open>_create_demo_payment\<close> is never reached, and the
  result has \<open>success = False\<close> and status \<^verbatim>\<open>failed\<close>, not a pending success.
\<close>

theorem create_payment_without_credentials_fails:
  "select_best_gateway no_credentials country_code = ''demo''
   \<and> create_payment no_credentials create_nowpayments_payment uuid_hex 49 ''USD''
        ''professional'' ''test@example.com'' None country_code =
       \<lparr>success = False, transaction_id = None, amount = 49, currency = ''USD'',
        gateway = ''demo'', result_status = ''failed'',
        message = ''Gateway demo is not configured'', payment_url = None\<rparr>"
  by (simp add: create_payment_def select_unconfigured no_credentials_unconfigured truthy_def
      failed_result_def)

section \<open>Status writes of the transaction table\<close>

lemma find_update_status:
  assumes "\<And>row. payment_id (f row) = payment_id row"
  shows "find (\<lambda>row. payment_id row = pid) (map f rows) =
           map_option f (find (\<lambda>row. payment_id row = pid) rows)"
  using assms by (induction rows) auto

lemma status_of_update:
  "status_of (update_payment_status s pid st metadata now) pid' =
     (if pid' = pid then map_option (\<lambda>old. st) (status_of s pid) else status_of s pid')"
proof -
  let ?f = "\<lambda>row. if payment_id row = pid
                     then (case metadata of
                             None \<Rightarrow> row\<lparr>status := st, updated_at := now\<rparr>
                           | Some m \<Rightarrow>
                               if m = [] then row\<lparr>status := st, updated_at := now\<rparr>
                               else row\<lparr>status := st, payment_metadata := m, updated_at := now\<rparr>)
                     else row"
  have keep: "\<And>row. payment_id (?f row) = payment_id row"
    by (simp split: option.splits)
  have "find (\<lambda>row. payment_id row = pid') (map ?f (payment_transactions s)) =
          map_option ?f (find (\<lambda>row. payment_id row = pid') (payment_transactions s))"
    using keep by (rule find_update_status)
  moreover have "find (\<lambda>row. payment_id row = pid') (payment_transactions s) = Some row
      \<Longrightarrow> payment_id row = pid'" for row
    by (auto simp: find_Some_iff)
  ultimately show ?thesis
    by (cases "find (\<lambda>row. payment_id row = pid') (payment_transactions s)")
       (auto simp: status_of_def update_payment_status_def split: option.splits)
qed

lemma status_of_fresh: "status_of fresh_manager pid = None"
  by (simp add: status_of_def fresh_manager_def)

lemma find_append:
  "find P (xs @ ys) = (case find P xs of None \<Rightarrow> find P ys | Some x \<Rightarrow> Some x)"
  by (induction xs) auto

lemma find_filter_other:
  "pid' \<noteq> pid \<Longrightarrow>
     find (\<lambda>row. payment_id row = pid') (filter (\<lambda>row. payment_id row \<noteq> pid) rows) =
     find (\<lambda>row. payment_id row = pid') rows"
  by (induction rows) auto

lemma find_filter_same:
  "find (\<lambda>row. payment_id row = pid) (filter (\<lambda>row. payment_id row \<noteq> pid) rows) = None"
  by (induction rows) auto

lemma status_of_store:
  "status_of (store_payment_transaction s em pid gw amt cur st md now) pid' =
     (if pid' = pid then Some st else status_of s pid')"
  by (auto simp: status_of_def store_payment_transaction_def find_append find_filter_other
      find_filter_same split: option.splits)

text \<open>
  Claim C3, as amended. The two status-writing operations check no transition:
  \<^verbatim>\<open>update_payment_status\<close> sets the status of the row with the given payment id to the
  given status whatever the stored status is (and changes nothing when there is no such
  row), \<^verbatim>\<open>store_payment_transaction\<close> replaces the row by one with the given status, and
  the rows of every other payment id keep their status. Neither operation can fail.
\<close>

theorem status_written_without_transition_check:
  "status_of (update_payment_status s pid st metadata now) pid =
      (case status_of s pid of None \<Rightarrow> None | Some old \<Rightarrow> Some st)
   \<and> status_of (store_payment_transaction s em pid gw amt cur st md now) pid = Some st
   \<and> (other \<noteq> pid \<longrightarrow>
        status_of (update_payment_status s pid st metadata now) other = status_of s other
        \<and> status_of (store_payment_transaction s em pid gw amt cur st md now) other =
            status_of s other)"
  by (simp add: status_of_update status_of_store split: option.splits)

text \<open>
  Claim C3 as stated fails: a completed transaction is moved back to \<^verbatim>\<open>pending\<close> by
  \<^verbatim>\<open>update_payment_status\<close> and to \<^verbatim>\<open>failed\<close> by \<^verbatim>\<open>store_payment_transaction\<close>.
\<close>

theorem completed_payment_returns_to_pending:
  "status_of completed_payment ''gopt_0123456789ab'' = Some ''completed''
   \<and> status_of (update_payment_status completed_payment ''gopt_0123456789ab'' ''pending'' None 1)
        ''gopt_0123456789ab'' = Some ''pending''
   \<and> status_of (store_payment_transaction completed_payment ''dev@example.com''
        ''gopt_0123456789ab'' ''flutterwave'' 49 ''USD'' ''failed'' ''retry'' 2)
        ''gopt_0123456789ab'' = Some ''failed''"
  by (simp add: completed_payment_def status_of_update status_of_store)

theorem status_written_without_transition_check_witness:
  "status_of (update_payment_status completed_payment ''gopt_0123456789ab'' ''failed'' None 1)
      ''gopt_0123456789ab'' = Some ''failed''
   \<and> status_of (update_payment_status completed_payment ''gopt_0123456789ab'' ''failed'' None 1)
      ''gopt_other'' = None"
  using status_written_without_transition_check
    [where s = completed_payment and pid = "''gopt_0123456789ab''" and st = "''failed''"
       and metadata = None and now = 1 and other = "''gopt_other''"]
  by (simp add: completed_payment_def status_of_store status_of_fresh)

section \<open>Signup, lookup and upgrade on concrete states\<close>

text \<open>Every key that \<^verbatim>\<open>generate_api_key\<close> returns is \<^verbatim>\<open>gopt_\<close> plus 23 URL-safe characters.\<close>

lemma generate_api_key_format:
  assumes "generate_api_key s tokens = Some key" and "list_all is_token_urlsafe_18 tokens"
  shows "length key = 28 \<and> startswith key ''gopt_''
         \<and> list_all (in_class urlsafe_chars) (drop 5 key)"
  using assms
proof (induction tokens)
  case Nil
  then show ?case by simp
next
  case (Cons token later)
  show ?case
  proof (cases "list_ex (\<lambda>row. api_key row = ''gopt_'' @ take 23 token) (customers s)")
    case True
    with Cons show ?thesis by (simp add: Let_def)
  next
    case False
    with Cons.prems have key: "key = ''gopt_'' @ take 23 token" by (simp add: Let_def)
    from Cons.prems have tok: "length token = 24" "list_all (in_class urlsafe_chars) token"
      by (simp_all add: is_token_urlsafe_18_def)
    from tok(2) have "list_all (in_class urlsafe_chars) (take 23 token)"
      by (auto simp: list_all_iff dest: in_set_takeD)
    with key tok(1) show ?thesis by (simp add: startswith_def)
  qed
qed


text \<open>
  Claim C4. On a fresh manager, \<^verbatim>\<open>create_customer("dev@example.com")\<close> succeeds: it returns
  the customer with a key of the form \<^verbatim>\<open>gopt_\<close> plus 23 characters and stores the row.
  The existence check inside \<^verbatim>\<open>create_customer\<close> has however called the memoised
  \<^verbatim>\<open>get_customer\<close>, which stored the answer \<^verbatim>\<open>None\<close> for this email, so the
  \<^verbatim>\<open>get_customer_by_email\<close> that follows returns \<^verbatim>\<open>None\<close> and not the customer.
\<close>

theorem lookup_after_signup_finds_nothing:
  "validate_email ''dev@example.com''
   \<and> snd signup = Inr (Some dev_customer)
   \<and> customers (fst signup) = [dev_customer]
   \<and> api_key dev_customer = ''gopt_'' @ ''abcdefghijklmnopqrstuvw''
   \<and> lru_get_customer (fst signup) = [(''dev@example.com'', None)]
   \<and> snd (get_customer_by_email (fst signup) ''dev@example.com'' 1) = None"
  by code_simp

text \<open>
  Claim C5. After the first signup, a second \<^verbatim>\<open>create_customer\<close> with the same email
  does not raise: the memoised lookup answers \<^verbatim>\<open>None\<close>, the INSERT then violates the
  UNIQUE email, and the \<^verbatim>\<open>IntegrityError\<close> handler returns the stored customer. The
  stored row is unchanged.
\<close>

theorem second_signup_returns_first_customer:
  "snd signup = Inr (Some dev_customer)
   \<and> snd second_signup = Inr (Some dev_customer)
   \<and> customers (fst second_signup) = [dev_customer]"
  by code_simp

text \<open>
  Claim C1. On a manager started on the database that holds the free-tier customer, a
  lookup by API key, then a successful \<^verbatim>\<open>complete_upgrade\<close> to \<^verbatim>\<open>professional\<close>: the table
  has the new tier, the entry of \<^verbatim>\<open>self.cache\<close> under the API key is still there with
  the old tier, and the lookup by API key made after the upgrade returns the tier
  \<^verbatim>\<open>free\<close>.
\<close>

theorem upgrade_leaves_api_key_lookup_stale:
  "snd before_upgrade = Some dev_customer
   \<and> tier dev_customer = ''free''
   \<and> snd upgraded = Inr ()
   \<and> map tier (customers (fst upgraded)) = [''professional'']
   \<and> map_option tier
        (cache (rm_cache (fst upgraded)) (''customer_api_'' @ ''gopt_abcdefghijklmnopqrstuvw''))
        = Some ''free''
   \<and> map_option tier (snd after_upgrade) = Some ''free''"
  by code_simp

text \<open>
  Claim C10. Not every key of \<^verbatim>\<open>generate_api_key\<close> passes \<^verbatim>\<open>validate_api_key\<close>: the token
  \<^verbatim>\<open>abcdefghij-lmnopqrstuvwx\<close> is a possible result of \<^verbatim>\<open>secrets.token_urlsafe(18)\<close>, the
  signup that draws it creates a customer with the key
  \<^verbatim>\<open>gopt_abcdefghij-lmnopqrstuvw\<close>, \<^verbatim>\<open>validate_api_key\<close> rejects that key, and
  \<^verbatim>\<open>get_customer_by_api_key\<close> returns \<^verbatim>\<open>None\<close> for it although the table holds the
  customer (also on a manager started afresh on that table).
\<close>

theorem generated_key_rejected_by_validate_api_key:
  "is_token_urlsafe_18 ''abcdefghij-lmnopqrstuvwx''
   \<and> snd hyphen_signup =
       Inr (Some (new_customer ''dev@example.com'' ''gopt_abcdefghij-lmnopqrstuvw'' 0))
   \<and> map api_key (customers (fst hyphen_signup)) = [''gopt_abcdefghij-lmnopqrstuvw'']
   \<and> validate_api_key ''gopt_abcdefghij-lmnopqrstuvw'' = False
   \<and> snd (get_customer_by_api_key (fst hyphen_signup) ''gopt_abcdefghij-lmnopqrstuvw'' 1) = None
   \<and> snd (get_customer_by_api_key (restarted (fst hyphen_signup))
             ''gopt_abcdefghij-lmnopqrstuvw'' 1) = None"
  by code_simp

section \<open>The matcher decides the denotation\<close>

lemma conc_iff: "w \<in> conc A B \<longleftrightarrow> (\<exists>u v. w = u @ v \<and> u \<in> A \<and> v \<in> B)"
  by (auto simp: conc_def)

lemma lang_seq [simp]: "lang (seq r s) = conc (lang r) (lang s)"
  by (cases r) (auto simp: conc_def)

lemma lang_alt [simp]: "lang (alt r s) = lang r \<union> lang s"
  by (cases r; cases s) auto

lemma nullable_lang: "nullable r \<longleftrightarrow> [] \<in> lang r"
  by (induction r) (auto simp: conc_iff intro: star.star_empty)

lemma star_cons_split:
  assumes "w \<in> star A" and "w = c # x"
  shows "\<exists>u v. x = u @ v \<and> c # u \<in> A \<and> v \<in> star A"
  using assms
proof (induction arbitrary: x rule: star.induct)
  case star_empty
  then show ?case by simp
next
  case (star_step u v)
  show ?case
  proof (cases u)
    case Nil
    with star_step show ?thesis by simp
  next
    case (Cons d u')
    with star_step.prems star_step.hyps have "x = u' @ v" "c # u' \<in> A" "v \<in> star A"
      by auto
    then show ?thesis by blast
  qed
qed

lemma star_cons_iff:
  "c # x \<in> star A \<longleftrightarrow> (\<exists>u v. x = u @ v \<and> c # u \<in> A \<and> v \<in> star A)"
proof
  assume "c # x \<in> star A"
  then show "\<exists>u v. x = u @ v \<and> c # u \<in> A \<and> v \<in> star A"
    using star_cons_split by blast
next
  assume "\<exists>u v. x = u @ v \<and> c # u \<in> A \<and> v \<in> star A"
  then obtain u v where "x = u @ v" "c # u \<in> A" "v \<in> star A" by blast
  then have "(c # u) @ v \<in> star A" by (intro star.star_step)
  with \<open>x = u @ v\<close> show "c # x \<in> star A" by simp
qed

lemma conc_cons_iff:
  "c # x \<in> conc A B \<longleftrightarrow>
     (\<exists>u v. x = u @ v \<and> c # u \<in> A \<and> v \<in> B) \<or> ([] \<in> A \<and> c # x \<in> B)"
  by (auto simp: conc_iff Cons_eq_append_conv)

lemma deriv_lang: "x \<in> lang (deriv c r) \<longleftrightarrow> c # x \<in> lang r"
proof (induction r arbitrary: x)
  case (Seq r s)
  have "x \<in> lang (deriv c (Seq r s)) \<longleftrightarrow>
          (\<exists>u v. x = u @ v \<and> u \<in> lang (deriv c r) \<and> v \<in> lang s)
          \<or> (nullable r \<and> x \<in> lang (deriv c s))"
    by (auto simp: conc_iff)
  also have "\<dots> \<longleftrightarrow>
          (\<exists>u v. x = u @ v \<and> c # u \<in> lang r \<and> v \<in> lang s)
          \<or> ([] \<in> lang r \<and> c # x \<in> lang s)"
    by (simp add: Seq nullable_lang)
  also have "\<dots> \<longleftrightarrow> c # x \<in> conc (lang r) (lang s)"
    by (simp only: conc_cons_iff)
  finally show ?case by simp
next
  case (Star r)
  have "x \<in> lang (deriv c (Star r)) \<longleftrightarrow>
          (\<exists>u v. x = u @ v \<and> u \<in> lang (deriv c r) \<and> v \<in> star (lang r))"
    by (auto simp: conc_iff)
  also have "\<dots> \<longleftrightarrow> (\<exists>u v. x = u @ v \<and> c # u \<in> lang r \<and> v \<in> star (lang r))"
    by (simp add: Star)
  also have "\<dots> \<longleftrightarrow> c # x \<in> star (lang r)"
    by (simp only: star_cons_iff)
  finally show ?case by simp
qed auto

lemma matches_lang: "matches r w \<longleftrightarrow> w \<in> lang r"
  by (induction w arbitrary: r) (simp_all add: nullable_lang deriv_lang)

lemma star_occurs:
  assumes "w \<in> star A" and "\<And>u. u \<in> A \<Longrightarrow> list_all P u"
  shows "list_all P w"
  using assms by (induction rule: star.induct) auto

lemma lang_occurs: "w \<in> lang r \<Longrightarrow> list_all (occurs r) w"
proof (induction r arbitrary: w)
  case (Seq r s)
  then obtain u v where "w = u @ v" "u \<in> lang r" "v \<in> lang s"
    by (auto simp: conc_iff)
  with Seq.IH have "list_all (occurs r) u" "list_all (occurs s) v" by auto
  with \<open>w = u @ v\<close> show ?case by (auto simp: list_all_iff)
next
  case (Alt r s)
  then show ?case by (auto simp: list_all_iff)
next
  case (Star r)
  then show ?case
    by (auto intro: star_occurs [where A = "lang r"])
qed auto

lemma any_star: "w \<in> star (lang AnyChar)"
proof (induction w)
  case Nil
  show ?case by (rule star.star_empty)
next
  case (Cons c w)
  have "[c] \<in> lang AnyChar" by simp
  then have "[c] @ w \<in> star (lang AnyChar)" using Cons by (rule star.star_step)
  then show ?case by simp
qed

lemma concI: "u \<in> A \<Longrightarrow> v \<in> B \<Longrightarrow> u @ v \<in> conc A B"
  by (auto simp: conc_def)

section \<open>What \<^verbatim>\<open>validate_email\<close> rules out\<close>

lemma dot_lang: "lang dot = {''.''}"
  by (auto simp: dot_def in_class_def)

lemma two_dots_lang: "''..'' \<in> lang (at_least 2 dot)"
proof -
  have "''.'' @ ''.'' @ [] \<in> conc (lang dot) (conc (lang dot) {[]})"
    by (intro concI) (simp_all add: dot_lang)
  then have "''..'' \<in> lang (rep 2 dot)"
    by (simp add: eval_nat_numeral)
  then have "''..'' @ [] \<in> conc (lang (rep 2 dot)) (star (lang dot))"
    by (intro concI star.star_empty)
  then show ?thesis by (simp add: at_least_def)
qed

lemma search_two_dots: "re_search (Pattern False (at_least 2 dot) False) (u @ ''..'' @ v)"
proof -
  have "u @ (''..'' @ v) \<in> conc (star (lang AnyChar)) (conc (lang (at_least 2 dot)) (star (lang AnyChar)))"
    by (intro concI any_star two_dots_lang)
  then show ?thesis by (simp add: matches_lang tail_of_def)
qed

lemma search_leading_dot: "re_search (Pattern True dot False) (CHR ''.'' # v)"
proof -
  have "[] @ (''.'' @ v) \<in> conc {[]} (conc (lang dot) (star (lang AnyChar)))"
    by (intro concI any_star) (simp_all add: dot_lang)
  then show ?thesis by (simp add: matches_lang tail_of_def)
qed

lemma search_trailing_dot: "re_search (Pattern False dot True) (u @ ''.'')"
proof -
  have "u @ (''.'' @ []) \<in> conc (star (lang AnyChar)) (conc (lang dot) ({[]} \<union> lang (Chars [Lit newline])))"
    by (intro concI any_star) (simp_all add: dot_lang)
  then show ?thesis by (simp add: matches_lang tail_of_def)
qed

lemma validate_email_length: "validate_email em \<Longrightarrow> length em \<le> 255"
  by (simp add: validate_email_def split: if_splits)

lemma validate_email_no_two_dots: "validate_email (u @ ''..'' @ v) = False"
  using search_two_dots [of u v]
  by (simp add: validate_email_def suspicious_patterns_def del: re_search.simps)

lemma validate_email_no_leading_dot: "validate_email (CHR ''.'' # v) = False"
  using search_leading_dot [of v]
  by (simp add: validate_email_def suspicious_patterns_def del: re_search.simps)

lemma validate_email_no_trailing_dot: "validate_email (u @ ''.'') = False"
  using search_trailing_dot [of u]
  by (simp add: validate_email_def suspicious_patterns_def del: re_search.simps)


lemma in_class_append: "in_class (a @ b) c \<longleftrightarrow> in_class a c \<or> in_class b c"
  by (simp add: in_class_def)

lemma in_class_Cons: "in_class (Lit d # b) c \<longleftrightarrow> c = d \<or> in_class b c"
  by (simp add: in_class_def)

lemma letters_alnum: "in_class letters c \<Longrightarrow> in_class alnum c"
  by (auto simp: in_class_def letters_def alnum_def)

lemma occurs_rep: "occurs (rep n r) c \<Longrightarrow> occurs r c"
  by (induction n) auto

lemma occurs_at_least: "occurs (at_least n r) c \<Longrightarrow> occurs r c"
  by (auto simp: at_least_def dest: occurs_rep)

lemma occurs_email_body: "occurs email_body c \<Longrightarrow> in_class email_chars c"
  by (auto simp: email_body_def email_chars_def local_chars_def domain_chars_def dot_def
      in_class_append in_class_Cons dest!: occurs_at_least letters_alnum)

lemma email_body_chars:
  assumes "em \<in> lang email_body"
  shows "list_all (in_class email_chars) em"
proof -
  have "list_all (occurs email_body) em"
    using assms by (rule lang_occurs)
  then show ?thesis
    by (auto simp: list_all_iff intro: occurs_email_body)
qed

lemma re_match_email_chars:
  assumes "re_match email_pattern em" and "em = [] \<or> last em \<noteq> newline"
  shows "list_all (in_class email_chars) em"
proof -
  from assms(1) have "em \<in> conc (lang email_body) ({[]} \<union> lang (Chars [Lit newline]))"
    by (simp add: email_pattern_def matches_lang tail_of_def)
  then obtain u v where uv: "em = u @ v" "u \<in> lang email_body"
      "v = [] \<or> v = [newline]"
    by (auto simp: conc_iff in_class_def)
  with assms(2) have "v = []" by auto
  with uv show ?thesis by (simp add: email_body_chars)
qed

lemma control_not_email_char: "is_control c \<Longrightarrow> \<not> in_class email_chars c"
  by (auto simp: is_control_def in_class_def email_chars_def local_chars_def alnum_def)

lemma injection_not_email_char: "in_class injection_chars c \<Longrightarrow> \<not> in_class email_chars c"
  by (auto simp: injection_chars_def in_class_def email_chars_def local_chars_def alnum_def)


section \<open>What \<^verbatim>\<open>sanitize_input\<close> keeps\<close>

lemma dot_not_space: "\<not> isspace CHR ''.''"
  by (simp add: isspace_def whitespace_def)

lemma dot_not_injection: "\<not> in_class injection_chars CHR ''.''"
  by (simp add: injection_chars_def in_class_def)

lemma newline_space: "isspace newline"
  by (simp add: isspace_def whitespace_def newline_def)

lemma strip_last: "strip s \<noteq> [] \<Longrightarrow> \<not> isspace (last (strip s))"
proof -
  assume a: "strip s \<noteq> []"
  let ?t = "dropWhile isspace (rev (dropWhile isspace s))"
  from a have ne: "?t \<noteq> []" by (simp add: strip_def)
  then have "\<not> isspace (hd ?t)" by (rule hd_dropWhile)
  moreover have "last (strip s) = hd ?t"
    using ne by (simp add: strip_def last_rev)
  ultimately show ?thesis by simp
qed

lemma sanitize_short:
  assumes "length (sanitize_input raw) \<le> 255"
  shows "sanitize_input raw = strip (re_sub_class injection_chars raw)"
proof -
  have "length (strip (re_sub_class injection_chars raw)) \<le> 1000"
    using assms by (simp add: sanitize_input_def min_def split: if_splits)
  then show ?thesis by (simp add: sanitize_input_def)
qed

lemma sanitize_long:
  assumes "sanitize_input raw \<noteq> strip (re_sub_class injection_chars raw)"
  shows "255 < length (sanitize_input raw)"
  using assms sanitize_short [of raw] by force

lemma sanitize_no_trailing_newline:
  assumes "length (sanitize_input raw) \<le> 255"
  shows "sanitize_input raw = [] \<or> last (sanitize_input raw) \<noteq> newline"
  using strip_last [of "re_sub_class injection_chars raw"] newline_space
  by (auto simp: sanitize_short [OF assms])

lemma dropWhile_keeps_two_dots:
  assumes "s = u @ ''..'' @ v" and "\<not> P CHR ''.''"
  shows "\<exists>u' v'. dropWhile P s = u' @ ''..'' @ v'"
  using assms
proof (induction u arbitrary: s)
  case Nil
  then have "dropWhile P s = [] @ ''..'' @ v" by simp
  then show ?case by blast
next
  case (Cons a u)
  show ?case
  proof (cases "P a")
    case True
    with Cons.prems have "dropWhile P s = dropWhile P (u @ ''..'' @ v)" by simp
    with Cons.IH [of "u @ ''..'' @ v"] Cons.prems show ?thesis by simp
  next
    case False
    with Cons.prems have "dropWhile P s = (a # u) @ ''..'' @ v" by simp
    then show ?thesis by blast
  qed
qed

lemma rev_keeps_two_dots:
  assumes "s = u @ ''..'' @ v"
  shows "\<exists>u' v'. rev s = u' @ ''..'' @ v'"
proof -
  from assms have "rev s = rev v @ ''..'' @ rev u" by simp
  then show ?thesis by blast
qed

lemma strip_keeps_two_dots:
  assumes "s = u @ ''..'' @ v"
  shows "\<exists>u' v'. strip s = u' @ ''..'' @ v'"
proof -
  obtain u1 v1 where "dropWhile isspace s = u1 @ ''..'' @ v1"
    using dropWhile_keeps_two_dots [where P = isspace, OF assms dot_not_space] by blast
  then obtain u2 v2 where "rev (dropWhile isspace s) = u2 @ ''..'' @ v2"
    using rev_keeps_two_dots by blast
  then obtain u3 v3 where
    "dropWhile isspace (rev (dropWhile isspace s)) = u3 @ ''..'' @ v3"
    using dropWhile_keeps_two_dots [where P = isspace, OF _ dot_not_space] by blast
  then obtain u4 v4 where
    "rev (dropWhile isspace (rev (dropWhile isspace s))) = u4 @ ''..'' @ v4"
    using rev_keeps_two_dots by blast
  then have "strip s = u4 @ ''..'' @ v4" by (simp add: strip_def)
  then show ?thesis by blast
qed

lemma strip_keeps_leading_dot: "\<exists>y. strip (CHR ''.'' # x) = CHR ''.'' # y"
proof -
  have "dropWhile isspace (rev x @ CHR ''.'' # []) = dropWhile isspace (rev x) @ CHR ''.'' # []"
    using dot_not_space by (rule dropWhile_append3)
  then show ?thesis by (simp add: strip_def dot_not_space)
qed

lemma strip_keeps_trailing_dot: "\<exists>y. strip (x @ ''.'') = y @ ''.''"
proof -
  have "dropWhile isspace (x @ CHR ''.'' # []) = dropWhile isspace x @ CHR ''.'' # []"
    using dot_not_space by (rule dropWhile_append3)
  then show ?thesis by (simp add: strip_def dot_not_space)
qed

lemma re_sub_keeps_two_dots:
  "re_sub_class injection_chars (u @ ''..'' @ v) =
     re_sub_class injection_chars u @ ''..'' @ re_sub_class injection_chars v"
  by (simp add: re_sub_class_def dot_not_injection)

lemma sanitize_two_dots_rejected: "validate_email (sanitize_input (u @ ''..'' @ v)) = False"
proof (cases "sanitize_input (u @ ''..'' @ v) =
    strip (re_sub_class injection_chars (u @ ''..'' @ v))")
  case True
  obtain u' v' where "strip (re_sub_class injection_chars (u @ ''..'' @ v)) = u' @ ''..'' @ v'"
    using strip_keeps_two_dots [OF re_sub_keeps_two_dots] by blast
  with True show ?thesis by (simp only: validate_email_no_two_dots)
next
  case False
  then have "255 < length (sanitize_input (u @ ''..'' @ v))" by (rule sanitize_long)
  then show ?thesis using validate_email_length by fastforce
qed

lemma sanitize_leading_dot_rejected: "validate_email (sanitize_input (CHR ''.'' # v)) = False"
proof -
  obtain y where "strip (re_sub_class injection_chars (CHR ''.'' # v)) = CHR ''.'' # y"
    using strip_keeps_leading_dot [of "re_sub_class injection_chars v"]
    by (auto simp: re_sub_class_def dot_not_injection)
  then have "sanitize_input (CHR ''.'' # v) = CHR ''.'' # take 999 y"
    by (simp add: sanitize_input_def)
  then show ?thesis by (simp only: validate_email_no_leading_dot)
qed

lemma sanitize_trailing_dot_rejected: "validate_email (sanitize_input (u @ ''.'')) = False"
proof (cases "sanitize_input (u @ ''.'') = strip (re_sub_class injection_chars (u @ ''.''))")
  case True
  obtain y where "strip (re_sub_class injection_chars (u @ ''.'')) = y @ ''.''"
    using strip_keeps_trailing_dot [of "re_sub_class injection_chars u"]
    by (auto simp: re_sub_class_def dot_not_injection)
  with True show ?thesis by (simp only: validate_email_no_trailing_dot)
next
  case False
  then have "255 < length (sanitize_input (u @ ''.''))" by (rule sanitize_long)
  then show ?thesis using validate_email_length by fastforce
qed

lemma sanitized_bad_char_rejected:
  assumes "list_ex (\<lambda>c. \<not> in_class email_chars c) (sanitize_input raw)"
  shows "validate_email (sanitize_input raw) = False"
proof (rule ccontr)
  assume "validate_email (sanitize_input raw) \<noteq> False"
  then have v: "validate_email (sanitize_input raw)" by simp
  then have len: "length (sanitize_input raw) \<le> 255" by (rule validate_email_length)
  from v have "re_match email_pattern (sanitize_input raw)"
    by (simp add: validate_email_def split: if_splits)
  then have "list_all (in_class email_chars) (sanitize_input raw)"
    using sanitize_no_trailing_newline [OF len] by (rule re_match_email_chars)
  with assms show False by (auto simp: list_all_iff list_ex_iff)
qed

lemma create_customer_invalid:
  "validate_email (sanitize_input raw) = False \<Longrightarrow>
     create_customer s raw tokens now = (s, Inl (ValueError ''Invalid email format''))"
  by (simp add: create_customer_def)

text \<open>
  Claim C9, as amended. \<^verbatim>\<open>create_customer\<close> validates the sanitised email, that is the
  input with the six characters \<^verbatim>\<open>< > " ' ; \\<close> deleted, surrounding whitespace stripped
  and the rest cut to 1000 characters. When the sanitised email has more than 255
  characters, consecutive dots, a leading or a trailing dot, or a control character, a
  quote character or any other character outside letters, digits and \<^verbatim>\<open>. _ % + - @\<close>, the
  call raises \<^verbatim>\<open>ValueError("Invalid email format")\<close> and leaves the whole state as it was.
  An input that itself has consecutive dots, a leading dot or a trailing dot is always
  rejected in this way.
\<close>

theorem create_customer_validates_sanitized_email:
  "((let em = sanitize_input raw
     in 255 < length em
        \<or> (\<exists>u v. em = u @ ''..'' @ v) \<or> (\<exists>v. em = CHR ''.'' # v) \<or> (\<exists>u. em = u @ ''.'')
        \<or> list_ex (\<lambda>c. is_control c \<or> in_class injection_chars c \<or> \<not> in_class email_chars c) em)
    \<longrightarrow> create_customer s raw tokens now = (s, Inl (ValueError ''Invalid email format'')))
   \<and> ((\<exists>u v. raw = u @ ''..'' @ v) \<or> (\<exists>v. raw = CHR ''.'' # v) \<or> (\<exists>u. raw = u @ ''.'')
    \<longrightarrow> create_customer s raw tokens now = (s, Inl (ValueError ''Invalid email format'')))"
proof (intro conjI impI)
  assume a: "let em = sanitize_input raw
     in 255 < length em
        \<or> (\<exists>u v. em = u @ ''..'' @ v) \<or> (\<exists>v. em = CHR ''.'' # v) \<or> (\<exists>u. em = u @ ''.'')
        \<or> list_ex (\<lambda>c. is_control c \<or> in_class injection_chars c \<or> \<not> in_class email_chars c) em"
  have "validate_email (sanitize_input raw) = False"
  proof -
    consider "255 < length (sanitize_input raw)"
      | u v where "sanitize_input raw = u @ ''..'' @ v"
      | v where "sanitize_input raw = CHR ''.'' # v"
      | u where "sanitize_input raw = u @ ''.''"
      | "list_ex (\<lambda>c. is_control c \<or> in_class injection_chars c \<or> \<not> in_class email_chars c)
           (sanitize_input raw)"
      using a by (auto simp: Let_def)
    then show ?thesis
    proof cases
      case 1
      then show ?thesis using validate_email_length by fastforce
    next
      case 2
      then show ?thesis by (simp only: validate_email_no_two_dots)
    next
      case 3
      then show ?thesis by (simp only: validate_email_no_leading_dot)
    next
      case 4
      then show ?thesis by (simp only: validate_email_no_trailing_dot)
    next
      case 5
      then have "list_ex (\<lambda>c. \<not> in_class email_chars c) (sanitize_input raw)"
        using control_not_email_char injection_not_email_char
        by (auto simp: list_ex_iff)
      then show ?thesis by (rule sanitized_bad_char_rejected)
    qed
  qed
  then show "create_customer s raw tokens now = (s, Inl (ValueError ''Invalid email format''))"
    by (rule create_customer_invalid)
next
  assume "(\<exists>u v. raw = u @ ''..'' @ v) \<or> (\<exists>v. raw = CHR ''.'' # v) \<or> (\<exists>u. raw = u @ ''.'')"
  then have "validate_email (sanitize_input raw) = False"
    using sanitize_two_dots_rejected sanitize_leading_dot_rejected
      sanitize_trailing_dot_rejected by blast
  then show "create_customer s raw tokens now = (s, Inl (ValueError ''Invalid email format''))"
    by (rule create_customer_invalid)
qed

section \<open>Signups with an email that sanitising rewrites\<close>

lemma signup_result:
  "snd signup = Inr (Some dev_customer) \<and> customers (fst signup) = [dev_customer]"
  by code_simp

lemma sanitize_plain: "sanitize_input ''dev@example.com'' = ''dev@example.com''"
  by code_simp

lemma sanitize_quoted: "sanitize_input quoted_email = ''dev@example.com''"
  by code_simp

lemma space_is_space: "isspace CHR '' ''"
  by (simp add: isspace_def whitespace_def)

lemma space_not_injection: "\<not> in_class injection_chars CHR '' ''"
  by (simp add: injection_chars_def in_class_def)

lemma strip_leading_spaces: "strip (replicate n CHR '' '' @ s) = strip s"
proof -
  have "dropWhile isspace (replicate n CHR '' '' @ s) = dropWhile isspace s"
    by (rule dropWhile_append2) (simp add: space_is_space)
  then show ?thesis by (simp add: strip_def)
qed

lemma sanitize_leading_spaces:
  "sanitize_input (replicate n CHR '' '' @ s) = sanitize_input s"
  by (simp add: sanitize_input_def re_sub_class_def space_not_injection strip_leading_spaces)

lemma sanitize_padded: "sanitize_input padded_email = ''dev@example.com''"
  by (simp only: padded_email_def sanitize_leading_spaces sanitize_plain)

lemma create_customer_sanitized:
  "sanitize_input raw = sanitize_input raw' \<Longrightarrow>
     create_customer s raw tokens now = create_customer s raw' tokens now"
  by (simp add: create_customer_def)

lemma quoted_signup_is_signup: "quoted_signup = signup"
  unfolding quoted_signup_def signup_def
  by (rule create_customer_sanitized) (simp only: sanitize_quoted sanitize_plain)

lemma padded_signup_is_signup: "padded_signup = signup"
  unfolding padded_signup_def signup_def
  by (rule create_customer_sanitized) (simp only: sanitize_padded sanitize_plain)

lemma quoted_email_has_quote: "list_ex (in_class injection_chars) quoted_email"
  by code_simp

text \<open>
  Claim C9 as stated fails: the input \<^verbatim>\<open>dev'@example.com\<close> has a quote character and an
  input of 300 spaces followed by \<^verbatim>\<open>dev@example.com\<close> has more than 255 characters,
  yet for both \<^verbatim>\<open>create_customer\<close> succeeds and stores a customer under the rewritten
  email \<^verbatim>\<open>dev@example.com\<close>.
\<close>

theorem quoted_email_creates_rewritten_customer:
  "list_ex (in_class injection_chars) quoted_email
   \<and> snd quoted_signup = Inr (Some dev_customer)
   \<and> customers (fst quoted_signup) = [dev_customer]
   \<and> email dev_customer = ''dev@example.com''
   \<and> 255 < length padded_email
   \<and> snd padded_signup = Inr (Some dev_customer)
   \<and> customers (fst padded_signup) = [dev_customer]"
  by (simp add: quoted_email_has_quote quoted_signup_is_signup padded_signup_is_signup
      signup_result dev_customer_def new_customer_def padded_email_def)

lemma bell_email_sanitized: "sanitize_input bell_email = bell_email"
  by code_simp

lemma bell_email_control: "list_ex is_control bell_email"
  by code_simp

theorem create_customer_validates_sanitized_email_witness:
  "create_customer fresh_manager bell_email [] 0 =
     (fresh_manager, Inl (ValueError ''Invalid email format''))
   \<and> create_customer fresh_manager ''test..test@example.com'' [] 0 =
     (fresh_manager, Inl (ValueError ''Invalid email format''))"
proof -
  have "list_ex (\<lambda>c. is_control c \<or> in_class injection_chars c \<or> \<not> in_class email_chars c)
          (sanitize_input bell_email)"
    using bell_email_control by (auto simp: bell_email_sanitized list_ex_iff)
  then have a: "create_customer fresh_manager bell_email [] 0 =
     (fresh_manager, Inl (ValueError ''Invalid email format''))"
    using create_customer_validates_sanitized_email [of bell_email fresh_manager "[]" 0]
    by (simp add: Let_def)
  have "''test..test@example.com'' = ''test'' @ ''..'' @ ''test@example.com''" by simp
  then have "\<exists>u v. ''test..test@example.com'' = u @ ''..'' @ v" by blast
  then have b: "create_customer fresh_manager ''test..test@example.com'' [] 0 =
     (fresh_manager, Inl (ValueError ''Invalid email format''))"
    using create_customer_validates_sanitized_email
      [of "''test..test@example.com''" fresh_manager "[]" 0]
    by blast
  from a b show ?thesis by simp
qed

section \<open>Usage ingestion\<close>

text \<open>
  With nothing cached for a well-formed key, the lookup returns the row of the table; a
  key that \<^verbatim>\<open>validate_api_key\<close> rejects is answered \<^verbatim>\<open>None\<close>.
\<close>

lemma get_customer_by_api_key_cold:
  assumes "lru_get_customer_by_api_key s = []"
    and "cache (rm_cache s) (''customer_api_'' @ key) = None"
    and "validate_api_key key"
    and "find (\<lambda>row. api_key row = key) (customers s) = Some row"
    and "row_to_customer row = Some row"
  shows "snd (get_customer_by_api_key s key now) = Some row"
  using assms
  by (simp add: get_customer_by_api_key_def get_customer_by_api_key_body_def cache_get_def
      Let_def)

lemma get_customer_by_api_key_invalid:
  assumes "lru_get_customer_by_api_key s = []" and "validate_api_key key = False"
  shows "snd (get_customer_by_api_key s key now) = None"
  using assms
  by (simp add: get_customer_by_api_key_def get_customer_by_api_key_body_def)

lemma track_unknown_customer:
  assumes "snd (get_customer_by_api_key s key now) = None"
  shows "snd (track_gpu_usage ops write_batch s key gpu_data now) = TrackError ''Invalid API key''"
  using assms by (simp add: track_gpu_usage_def split_beta)

lemma track_free_over_limit:
  assumes "snd (get_customer_by_api_key s key now) = Some c" and "tier c = ''free''"
    and "2 < length gpu_data"
  shows "track_gpu_usage ops write_batch s key gpu_data now =
           (fst (get_customer_by_api_key s key now),
            TrackError ''Free tier limited to 2 GPUs. Upgrade to Professional.'')"
proof -
  have "gpu_limit pricing_free < enat (length gpu_data)"
    using assms(3) by (simp add: pricing_free_def numeral_eq_enat)
  with assms(1,2) show ?thesis
    by (simp add: track_gpu_usage_def split_beta)
qed

lemma hyphen_customer_stored:
  "map tier (customers (restarted (fst hyphen_signup))) = [''free'']
   \<and> map api_key (customers (restarted (fst hyphen_signup))) = [''gopt_abcdefghij-lmnopqrstuvw'']"
  by code_simp

lemma hyphen_key_invalid: "validate_api_key ''gopt_abcdefghij-lmnopqrstuvw'' = False"
  by code_simp

lemma restarted_memo: "lru_get_customer_by_api_key (restarted s) = []"
  by (simp add: restarted_def)

text \<open>
  Claim C6. The signup that draws the token \<^verbatim>\<open>abcdefghij-lmnopqrstuvwx\<close> stores a free-tier
  customer with the key \<^verbatim>\<open>gopt_abcdefghij-lmnopqrstuvw\<close>. A batch of three records sent
  with that key, and indeed any batch, is answered \<^verbatim>\<open>{'error': 'Invalid API key'}\<close>: the
  lookup rejects the key before the table is read, so the tier limit is never checked
  and the caller does not get the validation error of the free tier.
\<close>

theorem free_customer_with_hyphen_key_gets_invalid_api_key:
  "map tier (customers (restarted (fst hyphen_signup))) = [''free'']
   \<and> map api_key (customers (restarted (fst hyphen_signup))) = [''gopt_abcdefghij-lmnopqrstuvw'']
   \<and> snd hyphen_key_report = TrackError ''Invalid API key''
   \<and> snd (track_gpu_usage ops write_batch (restarted (fst hyphen_signup))
            ''gopt_abcdefghij-lmnopqrstuvw'' gpu_data now) = TrackError ''Invalid API key''"
proof -
  have "snd (get_customer_by_api_key (restarted (fst hyphen_signup))
          ''gopt_abcdefghij-lmnopqrstuvw'' t) = None" for t
    using restarted_memo hyphen_key_invalid by (rule get_customer_by_api_key_invalid)
  then show ?thesis
    by (simp add: hyphen_customer_stored hyphen_key_report_def track_unknown_customer)
qed

text \<open>
  A second way to the same end: a memoised lookup that still says \<^verbatim>\<open>professional\<close> for a
  customer whose row has been set to \<^verbatim>\<open>free\<close> lets a batch of three records through, and
  the three rows are stored.
\<close>

lemma stale_memo_accepts_batch_of_free_customer:
  "snd set_to_free = Inr ()
   \<and> map tier (customers (fst set_to_free)) = [''free'']
   \<and> snd report_after_set_to_free =
       TrackSuccess \<lparr>gpus_monitored = 3, potential_hourly_savings = 4.5,
                     monthly_projection = 3240, summary_tier = ''professional''\<rparr>
   \<and> length (gpu_usage_logs (fst report_after_set_to_free)) = 3
   \<and> map gpu_count (customers (fst report_after_set_to_free)) = [3]"
  by code_simp











end
